theory Spec2Isabelle
  imports Complex_Main "HOL-Library.Sublist"
begin

section \<open>Values of the platform\<close>

text \<open>
  A JavaScript \<open>number\<close> is read as a real: rounding, the infinities and NaN are not
  part of the model. Where the source can produce NaN (\<open>parseFloat\<close>) or
  \<open>undefined\<close>, the value is an \<open>option\<close> and \<open>None\<close> stands for it. A string is a
  list of characters; a character is one byte, so the strings of the model are ASCII
  text and the upper-case mapping and the white space of ECMAScript are the ASCII ones.
\<close>

type_synonym number = real

datatype js_error = SyntaxError | TypeError | RequestFailed string

abbreviation backslash :: char where
  "backslash \<equiv> CHR 0x5C"

abbreviation dquote :: char where
  "dquote \<equiv> CHR 0x22"

abbreviation backtick :: char where
  "backtick \<equiv> CHR 0x60"

text \<open>A character whose code lies between the codes of two characters.\<close>

definition char_between :: "char \<Rightarrow> char \<Rightarrow> char \<Rightarrow> bool" where
  "char_between lo hi c \<longleftrightarrow> (of_char lo :: nat) \<le> of_char c \<and> (of_char c :: nat) \<le> of_char hi"

definition is_space :: "char \<Rightarrow> bool" where
  "is_space c \<longleftrightarrow> char_between (CHR 0x09) (CHR 0x0D) c \<or> c = CHR 0x20"

definition is_digit :: "char \<Rightarrow> bool" where
  "is_digit c \<longleftrightarrow> char_between (CHR ''0'') (CHR ''9'') c"

definition is_lower :: "char \<Rightarrow> bool" where
  "is_lower c \<longleftrightarrow> char_between (CHR ''a'') (CHR ''z'') c"

definition is_upper :: "char \<Rightarrow> bool" where
  "is_upper c \<longleftrightarrow> char_between (CHR ''A'') (CHR ''Z'') c"

definition upper_char :: "char \<Rightarrow> char" where
  "upper_char c = (if is_lower c then char_of (of_char c - (32 :: nat)) else c)"

definition lower_char :: "char \<Rightarrow> char" where
  "lower_char c = (if is_upper c then char_of (of_char c + (32 :: nat)) else c)"

text \<open>\<open>String.prototype.toUpperCase\<close>.\<close>

definition toUpperCase :: "string \<Rightarrow> string" where
  "toUpperCase s = map upper_char s"

text \<open>\<open>String.prototype.trim\<close>.\<close>

definition trim :: "string \<Rightarrow> string" where
  "trim s = rev (dropWhile is_space (rev (dropWhile is_space s)))"

text \<open>
  \<open>s.replace(/pat/g, '')\<close> for a pattern that is a literal text: the occurrences are
  found from left to right and do not overlap.
\<close>

fun remove_all :: "string \<Rightarrow> string \<Rightarrow> string" where
  "remove_all pat [] = []"
| "remove_all pat (c # cs) =
     (if pat \<noteq> [] \<and> prefix pat (c # cs) then remove_all pat (drop (length pat - 1) cs)
      else c # remove_all pat cs)"

text \<open>\<open>Array.prototype.join\<close>.\<close>

fun join :: "string \<Rightarrow> string list \<Rightarrow> string" where
  "join sep [] = []"
| "join sep [x] = x"
| "join sep (x # y # zs) = x @ sep @ join sep (y # zs)"

text \<open>
  \<open>Array.from(new Set(xs))\<close>: the elements of \<open>xs\<close> in the order of their first
  occurrence, each once.
\<close>

fun array_from_set :: "'a list \<Rightarrow> 'a list" where
  "array_from_set [] = []"
| "array_from_set (x # xs) = x # array_from_set (filter (\<lambda>y. y \<noteq> x) xs)"

subsection \<open>parseFloat\<close>

text \<open>
  \<open>parseFloat\<close> skips leading white space and reads the longest prefix that is a
  decimal literal: an optional sign, digits with an optional fraction (or a fraction
  alone), and an optional exponent. \<open>None\<close> is NaN. The literal \<open>Infinity\<close> is not
  modelled.
\<close>

definition digits_value :: "string \<Rightarrow> nat" where
  "digits_value ds = foldl (\<lambda>n d. 10 * n + (of_char d - 48)) 0 ds"

definition exponent_part :: "string \<Rightarrow> int" where
  "exponent_part s =
     (case s of
        [] \<Rightarrow> 0
      | e # r \<Rightarrow>
          if e = CHR ''e'' \<or> e = CHR ''E'' then
            (case r of
               [] \<Rightarrow> 0
             | g # r' \<Rightarrow>
                 if g = CHR ''-'' then
                   (if takeWhile is_digit r' = [] then 0
                    else - int (digits_value (takeWhile is_digit r')))
                 else if g = CHR ''+'' then int (digits_value (takeWhile is_digit r'))
                 else int (digits_value (takeWhile is_digit r)))
          else 0)"

definition scale10 :: "number \<Rightarrow> int \<Rightarrow> number" where
  "scale10 m e = (if 0 \<le> e then m * 10 ^ nat e else m / 10 ^ nat (- e))"

definition parseFloat :: "string \<Rightarrow> number option" where
  "parseFloat str =
     (let s = dropWhile is_space str;
          neg = (case s of [] \<Rightarrow> False | c # _ \<Rightarrow> c = CHR ''-'');
          s1 = (case s of [] \<Rightarrow> [] | c # r \<Rightarrow> if c = CHR ''-'' \<or> c = CHR ''+'' then r else s);
          ip = takeWhile is_digit s1;
          s2 = dropWhile is_digit s1;
          dot = (case s2 of [] \<Rightarrow> False | c # _ \<Rightarrow> c = CHR ''.'');
          fp = (if dot then takeWhile is_digit (tl s2) else []);
          s3 = (if dot then dropWhile is_digit (tl s2) else s2);
          mant = real (digits_value ip) + real (digits_value fp) / 10 ^ length fp
      in if ip = [] \<and> fp = [] then None
         else Some (scale10 (if neg then - mant else mant) (exponent_part s3)))"

section \<open>Regular expressions\<close>

text \<open>
  The ingestion service builds two regular expressions per symbol. The model covers
  the part of the pattern language of ECMAScript (without the \<open>u\<close> flag) that these
  patterns are written in: single characters, the escapes \<open>\s\<close> and backslash followed
  by a syntax character, the dot, character classes with ranges, the greedy
  quantifiers \<open>*\<close> and \<open>+\<close> on a single-character atom, a brace that is not a
  quantifier, and capture groups that are neither nested nor quantified.
  \<open>new RegExp\<close> either compiles the pattern, throws \<open>SyntaxError\<close>, or, for a pattern
  outside this part of the language, has no model (\<open>OutsideModel\<close>); a result
  \<open>Thrown SyntaxError\<close> is given only where ECMAScript throws.
\<close>

datatype 'a compiled = Compiled 'a | Thrown js_error | OutsideModel

text \<open>A set of characters: negated or not, and the inclusive ranges it is made of.\<close>

datatype cset = CSet bool "(char \<times> char) list"

datatype quant = Once | Star | Plus

datatype node = Atom cset quant | GroupOpen | GroupClose

datatype token = TAtom cset | TStar | TPlus | TQuest | TOpen | TClose | TAlt | TCaret | TDollar

datatype regexp = RegExp (nodes: "node list") (ignoreCase: bool)

definition literal :: "char \<Rightarrow> cset" where
  "literal c = CSet False [(c, c)]"

definition white_space :: cset where
  "white_space = CSet False [(CHR 0x09, CHR 0x0D), (CHR 0x20, CHR 0x20)]"

definition any_char :: cset where
  "any_char = CSet True [(CHR 0x0A, CHR 0x0A), (CHR 0x0D, CHR 0x0D)]"

definition syntax_character :: "char \<Rightarrow> bool" where
  "syntax_character c \<longleftrightarrow> c \<in> set (''^$.*+?()[]{}|'' @ [backslash])"

fun cons_tok :: "'a \<Rightarrow> 'a list compiled \<Rightarrow> 'a list compiled" where
  "cons_tok t (Compiled ts) = Compiled (t # ts)"
| "cons_tok t (Thrown e) = Thrown e"
| "cons_tok t OutsideModel = OutsideModel"

text \<open>The ranges of a class body; a range out of order is a syntax error (\<open>None\<close>).\<close>

fun class_ranges :: "string \<Rightarrow> (char \<times> char) list option" where
  "class_ranges [] = Some []"
| "class_ranges (a # b # c # r) =
     (if b = CHR ''-'' then
        (if (of_char a :: nat) \<le> of_char c then map_option (Cons (a, c)) (class_ranges r)
         else None)
      else map_option (Cons (a, a)) (class_ranges (b # c # r)))"
| "class_ranges (a # r) = map_option (Cons (a, a)) (class_ranges r)"

text \<open>Whether the text after an opening brace completes a quantifier \<open>{n}\<close>, \<open>{n,}\<close>, \<open>{n,m}\<close>.\<close>

definition braced_quantifier :: "string \<Rightarrow> bool" where
  "braced_quantifier cs =
     (takeWhile is_digit cs \<noteq> [] \<and>
      (case dropWhile is_digit cs of
         [] \<Rightarrow> False
       | d # r \<Rightarrow>
           if d = CHR ''}'' then True
           else if d = CHR '','' then
             (case dropWhile is_digit r of [] \<Rightarrow> False | d' # _ \<Rightarrow> d' = CHR ''}'')
           else False))"

function tokenize :: "string \<Rightarrow> token list compiled" where
  "tokenize [] = Compiled []"
| "tokenize (c # cs) =
     (if c = backslash then
        (case cs of
           [] \<Rightarrow> Thrown SyntaxError
         | e # r \<Rightarrow>
             if e = CHR ''s'' then cons_tok (TAtom white_space) (tokenize r)
             else if syntax_character e \<or> e = CHR ''/'' then cons_tok (TAtom (literal e)) (tokenize r)
             else OutsideModel)
      else if c = CHR ''['' then
        (let neg = (case cs of [] \<Rightarrow> False | d # _ \<Rightarrow> d = CHR ''^'');
             body0 = (if neg then tl cs else cs);
             body = takeWhile (\<lambda>d. d \<noteq> CHR '']'') body0;
             rest = dropWhile (\<lambda>d. d \<noteq> CHR '']'') body0
         in if rest = [] then Thrown SyntaxError
            else if backslash \<in> set body then OutsideModel
            else (case class_ranges body of
                    None \<Rightarrow> Thrown SyntaxError
                  | Some rs \<Rightarrow> cons_tok (TAtom (CSet neg rs)) (tokenize (tl rest))))
      else if c = CHR ''('' then cons_tok TOpen (tokenize cs)
      else if c = CHR '')'' then cons_tok TClose (tokenize cs)
      else if c = CHR ''*'' then cons_tok TStar (tokenize cs)
      else if c = CHR ''+'' then cons_tok TPlus (tokenize cs)
      else if c = CHR ''?'' then cons_tok TQuest (tokenize cs)
      else if c = CHR ''|'' then cons_tok TAlt (tokenize cs)
      else if c = CHR ''^'' then cons_tok TCaret (tokenize cs)
      else if c = CHR ''$'' then cons_tok TDollar (tokenize cs)
      else if c = CHR ''.'' then cons_tok (TAtom any_char) (tokenize cs)
      else if c = CHR ''{'' \<and> braced_quantifier cs then OutsideModel
      else cons_tok (TAtom (literal c)) (tokenize cs))"
  by pat_completeness auto

termination tokenize
proof (relation "measure length", goal_cases)
  case (4 c cs neg body0 body rest rs)
  have ne: "rest \<noteq> []" and r: "rest = dropWhile (\<lambda>d. d \<noteq> CHR '']'') body0"
    and b: "body0 = (if neg then tl cs else cs)"
    using 4 by simp_all
  have "length rest \<le> length body0"
    unfolding r by (rule length_dropWhile_le)
  moreover have "length (tl rest) < length rest"
    using ne by (cases rest) simp_all
  moreover have "length body0 \<le> length cs"
    unfolding b by simp
  ultimately show ?case by simp
qed auto

text \<open>
  The tokens are read from left to right. A quantifier with nothing before it, a
  quantifier after a quantifier, a closing parenthesis that closes nothing and a group
  that is never closed are syntax errors.
\<close>

definition repeats :: "token list \<Rightarrow> bool" where
  "repeats ts = (case ts of [] \<Rightarrow> False | t # _ \<Rightarrow> t = TStar \<or> t = TPlus)"

definition lazy_mark :: "token list \<Rightarrow> bool" where
  "lazy_mark ts = (case ts of [] \<Rightarrow> False | t # _ \<Rightarrow> t = TQuest)"

fun parse_nodes :: "bool \<Rightarrow> token list \<Rightarrow> node list compiled" where
  "parse_nodes g [] = (if g then Thrown SyntaxError else Compiled [])"
| "parse_nodes g (TAtom cs # TStar # ts) =
     (if repeats ts then Thrown SyntaxError
      else if lazy_mark ts then OutsideModel
      else cons_tok (Atom cs Star) (parse_nodes g ts))"
| "parse_nodes g (TAtom cs # TPlus # ts) =
     (if repeats ts then Thrown SyntaxError
      else if lazy_mark ts then OutsideModel
      else cons_tok (Atom cs Plus) (parse_nodes g ts))"
| "parse_nodes g (TAtom cs # ts) = cons_tok (Atom cs Once) (parse_nodes g ts)"
| "parse_nodes g (TStar # ts) = Thrown SyntaxError"
| "parse_nodes g (TPlus # ts) = Thrown SyntaxError"
| "parse_nodes g (TOpen # ts) =
     (if g \<or> lazy_mark ts then OutsideModel
      else cons_tok GroupOpen (parse_nodes True ts))"
| "parse_nodes g (TClose # ts) =
     (if \<not> g then Thrown SyntaxError
      else if repeats ts \<or> lazy_mark ts then OutsideModel
      else cons_tok GroupClose (parse_nodes False ts))"
| "parse_nodes g (t # ts) = OutsideModel"

text \<open>\<open>new RegExp(source, flags)\<close>, for no flag or the flag \<open>i\<close>.\<close>

definition new_RegExp :: "string \<Rightarrow> string \<Rightarrow> regexp compiled" where
  "new_RegExp source flags =
     (if flags \<noteq> [] \<and> flags \<noteq> ''i'' then OutsideModel
      else case tokenize source of
             Compiled ts \<Rightarrow>
               (case parse_nodes False ts of
                  Compiled ns \<Rightarrow> Compiled (RegExp ns (flags = ''i''))
                | Thrown e \<Rightarrow> Thrown e
                | OutsideModel \<Rightarrow> OutsideModel)
           | Thrown e \<Rightarrow> Thrown e
           | OutsideModel \<Rightarrow> OutsideModel)"

subsection \<open>Matching\<close>

definition in_ranges :: "(char \<times> char) list \<Rightarrow> char \<Rightarrow> bool" where
  "in_ranges rs c = list_ex (\<lambda>(lo, hi). char_between lo hi c) rs"

text \<open>
  A character is in a set if the set has a member equal to it; when case is ignored,
  a member with the same upper-case form.
\<close>

fun cset_match :: "bool \<Rightarrow> cset \<Rightarrow> char \<Rightarrow> bool" where
  "cset_match ic (CSet neg rs) c =
     (neg \<noteq> (in_ranges rs c \<or> (ic \<and> (in_ranges rs (upper_char c) \<or> in_ranges rs (lower_char c)))))"

fun consume :: "char \<Rightarrow> string option \<Rightarrow> string option" where
  "consume c None = None"
| "consume c (Some acc) = Some (acc @ [c])"

text \<open>
  The backtracking matcher at a fixed start position. \<open>cur\<close> is the text captured so
  far by the group that is open, if one is; \<open>caps\<close> are the captures of the groups
  already closed. A starred atom takes as many characters as it can and gives them
  back one by one when the rest of the pattern fails.
\<close>

fun match_here :: "bool \<Rightarrow> node list \<Rightarrow> string \<Rightarrow> string option \<Rightarrow> string list \<Rightarrow> string list option" where
  "match_here ic [] s cur caps = Some caps"
| "match_here ic (GroupOpen # ns) s cur caps = match_here ic ns s (Some []) caps"
| "match_here ic (GroupClose # ns) s cur caps =
     match_here ic ns s None (caps @ [case cur of None \<Rightarrow> [] | Some a \<Rightarrow> a])"
| "match_here ic (Atom cs Once # ns) [] cur caps = None"
| "match_here ic (Atom cs Once # ns) (c # r) cur caps =
     (if cset_match ic cs c then match_here ic ns r (consume c cur) caps else None)"
| "match_here ic (Atom cs Plus # ns) [] cur caps = None"
| "match_here ic (Atom cs Plus # ns) (c # r) cur caps =
     (if cset_match ic cs c then match_here ic (Atom cs Star # ns) r (consume c cur) caps else None)"
| "match_here ic (Atom cs Star # ns) [] cur caps = match_here ic ns [] cur caps"
| "match_here ic (Atom cs Star # ns) (c # r) cur caps =
     (if cset_match ic cs c then
        (case match_here ic (Atom cs Star # ns) r (consume c cur) caps of
           Some res \<Rightarrow> Some res
         | None \<Rightarrow> match_here ic ns (c # r) cur caps)
      else match_here ic ns (c # r) cur caps)"

text \<open>The first start position, from the left, at which the pattern matches.\<close>

fun search :: "bool \<Rightarrow> node list \<Rightarrow> string \<Rightarrow> string list option" where
  "search ic ns [] = match_here ic ns [] None []"
| "search ic ns (c # r) =
     (case match_here ic ns (c # r) None [] of
        Some caps \<Rightarrow> Some caps
      | None \<Rightarrow> search ic ns r)"

text \<open>
  \<open>text.match(re)\<close> for a regular expression without the \<open>g\<close> flag: \<open>None\<close> is
  \<open>null\<close>, otherwise the captures of the first match (\<open>match[1]\<close>, \<open>match[2]\<close>, ...).
\<close>

definition string_match :: "string \<Rightarrow> regexp \<Rightarrow> string list option" where
  "string_match txt re = search (ignoreCase re) (nodes re) txt"

definition capture1 :: "string list \<Rightarrow> string option" where
  "capture1 m = (case m of [] \<Rightarrow> None | c # _ \<Rightarrow> Some c)"

section \<open>Price ingestion service\<close>

record PriceUpdateResult =
  result_symbol :: string
  result_price :: number
  result_companyName :: "string option"
  result_sourceUrl :: "string option"
  result_sourceTitle :: "string option"

text \<open>The values of the parsed response, \<open>{ price: number, name: string }\<close>.\<close>

record entry =
  entry_price :: "number option"
  entry_name :: "string option"

type_synonym data = "string \<Rightarrow> entry option"

record web_chunk =
  uri :: "string option"
  title :: "string option"

text \<open>
  What the remote service answers: the text, and the grounding chunks of the first
  candidate (none when the answer carries no grounding metadata), each with or without
  a \<open>web\<close> part.
\<close>

record response =
  response_text :: "string option"
  groundingChunks :: "web_chunk option list"

text \<open>
  The client is built once from the environment variable \<open>API_KEY\<close>. The remote call,
  raced against the timeout of 20 seconds, is a function of that credential and the
  prompt: it answers or fails (a rejected call, or the timeout).
\<close>

record environment =
  API_KEY :: "string option"

type_synonym network = "string option \<Rightarrow> string \<Rightarrow> js_error + response"

definition regex_special :: "char \<Rightarrow> bool" where
  "regex_special c \<longleftrightarrow> c \<in> set (''.*+?^${}()|[]'' @ [backslash])"

definition escapeRegExp :: "string \<Rightarrow> string" where
  "escapeRegExp string = concat (map (\<lambda>c. if regex_special c then [backslash, c] else [c]) string)"

definition price_pattern :: "string \<Rightarrow> string" where
  \<open>price_pattern escapedSym =
     ''"'' @ escapedSym @ ''"'' @ [backslash] @ ''s*:'' @ [backslash] @ ''s*{[^}]*"price"'' @
     [backslash] @ ''s*:'' @ [backslash] @ ''s*([0-9.]+)[^}]*}''\<close>

definition name_pattern :: "string \<Rightarrow> string" where
  \<open>name_pattern escapedSym =
     ''"'' @ escapedSym @ ''"'' @ [backslash] @ ''s*:'' @ [backslash] @ ''s*{[^}]*"name"'' @
     [backslash] @ ''s*:'' @ [backslash] @ ''s*"([^"]+)"''\<close>

definition build_prompt :: "string list \<Rightarrow> string" where
  \<open>build_prompt symbols =
     [CHR 0x0A] @
     ''    Find the current real-time stock price and the short company name for the following symbols: '' @
     join '', '' symbols @ ''.'' @ [CHR 0x0A] @
     ''    '' @ [CHR 0x0A] @
     ''    CRITICAL OUTPUT RULES:'' @ [CHR 0x0A] @
     ''    1. You MUST return the data as a strictly valid JSON object.'' @ [CHR 0x0A] @
     ''    2. The keys must be the exact stock symbols provided.'' @ [CHR 0x0A] @
     ''    3. The values must be an object containing "price" (number) and "name" (string).'' @ [CHR 0x0A] @
     ''    4. "name" should be the company name or asset name (e.g., "Apple Inc." or "Bitcoin").'' @ [CHR 0x0A] @
     ''    5. Do not include markdown formatting like ```json.'' @ [CHR 0x0A] @
     ''    6. Example format: { "AAPL": { "price": 150.25, "name": "Apple Inc." }, "GOOGL": { "price": 2750.50, "name": "Alphabet Inc." } }'' @ [CHR 0x0A] @
     ''  ''\<close>

text \<open>\<open>text.replace(/```json/g, '').replace(/```/g, '').trim()\<close>.\<close>

definition clean_text :: "string \<Rightarrow> string" where
  "clean_text txt = trim (remove_all ''```'' (remove_all ''```json'' txt))"

text \<open>
  One round of the fallback loop: the body of \<open>symbols.forEach\<close>, with its own
  \<open>try\<close>/\<open>catch\<close>. An exception of \<open>new RegExp\<close> is caught and leaves \<open>data\<close> as it is.
  The patterns built here are all inside the modelled part of the pattern language
  (lemmas \<open>price_regexp\<close> and \<open>name_regexp\<close> below), so the case \<open>OutsideModel\<close> does
  not arise.
\<close>

definition fallback_step :: "string \<Rightarrow> data \<Rightarrow> string \<Rightarrow> data" where
  "fallback_step cleanText data sym' =
     (let escapedSym = escapeRegExp sym' in
      case new_RegExp (price_pattern escapedSym) ''i'' of
        Compiled priceRegex \<Rightarrow>
          (let match = string_match cleanText priceRegex in
           case new_RegExp (name_pattern escapedSym) ''i'' of
             Compiled nameRegex \<Rightarrow>
               (let nameMatch = string_match cleanText nameRegex in
                case match of
                  None \<Rightarrow> data
                | Some m \<Rightarrow>
                    data(sym' \<mapsto>
                      \<lparr>entry_price = (case capture1 m of None \<Rightarrow> None | Some c \<Rightarrow> parseFloat c),
                       entry_name = (case nameMatch of None \<Rightarrow> Some sym' | Some nm \<Rightarrow> capture1 nm)\<rparr>))
           | _ \<Rightarrow> data)
      | _ \<Rightarrow> data)"

text \<open>
  \<open>JSON.parse(cleanText)\<close> is a parameter, read at the type the source declares for
  its result, \<open>Record<string, { price: number, name: string }>\<close>; \<open>None\<close> is the
  exception of a text that is not JSON. Properties that every object inherits from
  its prototype are not part of \<open>data\<close>.
\<close>

definition parse_response :: "(string \<Rightarrow> data option) \<Rightarrow> string list \<Rightarrow> string \<Rightarrow> data" where
  "parse_response JSON_parse symbols cleanText =
     (case JSON_parse cleanText of
        Some d \<Rightarrow> d
      | None \<Rightarrow> foldl (fallback_step cleanText) Map.empty symbols)"

definition truthy_string :: "string option \<Rightarrow> bool" where
  "truthy_string s = (case s of None \<Rightarrow> False | Some t \<Rightarrow> t \<noteq> [])"

definition first_web_chunk :: "web_chunk option list \<Rightarrow> web_chunk option" where
  "first_web_chunk chunks =
     (case find (\<lambda>c. case c of None \<Rightarrow> False | Some w \<Rightarrow> truthy_string (uri w)) chunks of
        None \<Rightarrow> None
      | Some c \<Rightarrow> c)"

definition make_result :: "data \<Rightarrow> web_chunk option \<Rightarrow> string \<Rightarrow> PriceUpdateResult" where
  "make_result d firstWebChunk sym' =
     \<lparr>result_symbol = sym',
      result_price =
        (case d sym' of
           None \<Rightarrow> 0
         | Some e \<Rightarrow> (case entry_price e of None \<Rightarrow> 0 | Some p \<Rightarrow> p)),
      result_companyName =
        Some (case d sym' of
                None \<Rightarrow> sym'
              | Some e \<Rightarrow>
                  (case entry_name e of None \<Rightarrow> sym' | Some n \<Rightarrow> if n = [] then sym' else n)),
      result_sourceUrl = (case firstWebChunk of None \<Rightarrow> None | Some w \<Rightarrow> uri w),
      result_sourceTitle = (case firstWebChunk of None \<Rightarrow> None | Some w \<Rightarrow> title w)\<rparr>"

text \<open>
  \<open>fetchStockPrices\<close> returns the prompts it sent to the remote service, and either the
  results or the exception it throws.
\<close>

definition fetchStockPrices ::
  "environment \<Rightarrow> network \<Rightarrow> (string \<Rightarrow> data option) \<Rightarrow> string list
     \<Rightarrow> string list \<times> (js_error + PriceUpdateResult list)" where
  "fetchStockPrices env generateContent JSON_parse symbols =
     (if symbols = [] then ([], Inr [])
      else
        (let prompt = build_prompt symbols in
         case generateContent (API_KEY env) prompt of
           Inl err \<Rightarrow> ([prompt], Inl err)
         | Inr response \<Rightarrow>
             (let txt = (case response_text response of None \<Rightarrow> [] | Some t \<Rightarrow> t);
                  cleanText = clean_text txt;
                  d = parse_response JSON_parse symbols cleanText;
                  firstWebChunk = first_web_chunk (groundingChunks response)
              in ([prompt], Inr (map (make_result d firstWebChunk) symbols)))))"

section \<open>Reconciliation controller\<close>

record StockTracker =
  id' :: string
  symbol :: string
  companyName :: "string option"
  startPrice :: number
  targetPrice :: number
  currentPrice :: "number option"
  lastUpdated :: "number option"
  sourceUrl :: "string option"
  sourceTitle :: "string option"
  isCompleted :: "bool option"
  errorMessage :: "string option"

datatype SortOption = ADDED_DESC | PROGRESS_DESC | PROGRESS_ASC

text \<open>The texts of the string table that the controller shows; the table is a parameter.\<close>

record translation =
  missingKey :: string
  errorUpdate :: string
  importSuccess :: string
  importError :: string

record app =
  stocks :: "StockTracker list"
  isLoading :: bool
  error :: "string option"
  isSettingsOpen :: bool

text \<open>The truth value of \<open>s.isCompleted\<close>.\<close>

definition completed :: "StockTracker \<Rightarrow> bool" where
  "completed s \<longleftrightarrow> isCompleted s = Some True"

text \<open>
  A JavaScript function called with more arguments than it declares drops the
  surplus: \<open>fetchStockPrices(symbols, apiKey)\<close> runs \<open>fetchStockPrices\<close> on \<open>symbols\<close>.
\<close>

definition call_with_surplus :: "('a \<Rightarrow> 'b) \<Rightarrow> 'a \<Rightarrow> 'c \<Rightarrow> 'b" where
  "call_with_surplus f x surplus = f x"

text \<open>
  The two functions that \<open>refreshPrices\<close> maps over the current list: the first after
  the ingestion has returned \<open>results\<close>, the second after it has thrown. \<open>now\<close> is the
  value of \<open>Date.now()\<close>.
\<close>

definition merge_update :: "string list \<Rightarrow> PriceUpdateResult list \<Rightarrow> number \<Rightarrow> StockTracker \<Rightarrow> StockTracker" where
  "merge_update symbols results now stock =
     (if symbol stock \<notin> set symbols then stock
      else
        (case find (\<lambda>r. result_symbol r = symbol stock) results of
           Some update \<Rightarrow>
             if result_price update > 0 then
               stock\<lparr>currentPrice := Some (result_price update),
                     companyName := (if truthy_string (result_companyName update)
                                     then result_companyName update else companyName stock),
                     lastUpdated := Some now,
                     sourceUrl := result_sourceUrl update,
                     sourceTitle := result_sourceTitle update,
                     errorMessage := None\<rparr>
             else
               stock\<lparr>lastUpdated := Some now,
                     errorMessage := Some ''Symbol not found or data unavailable''\<rparr>
         | None \<Rightarrow>
             stock\<lparr>lastUpdated := Some now,
                   errorMessage := Some ''Symbol not found or data unavailable''\<rparr>))"

definition merge_failure :: "string list \<Rightarrow> number \<Rightarrow> StockTracker \<Rightarrow> StockTracker" where
  "merge_failure symbols now stock =
     (if symbol stock \<in> set symbols
      then stock\<lparr>lastUpdated := Some now, errorMessage := Some ''Update failed''\<rparr>
      else stock)"

text \<open>
  \<open>refreshPrices\<close>. \<open>stocks0\<close> is the list that the callback closed over, from which the
  targets are taken when no subset is passed; the merge runs on the list of the state
  \<open>st\<close> at the time the ingestion has settled.
\<close>

definition refreshPrices ::
  "environment \<Rightarrow> network \<Rightarrow> (string \<Rightarrow> data option) \<Rightarrow> translation \<Rightarrow> number \<Rightarrow> string
     \<Rightarrow> StockTracker list option \<Rightarrow> StockTracker list \<Rightarrow> app \<Rightarrow> app" where
  "refreshPrices env generateContent JSON_parse t now apiKey subset' stocks0 st =
     (if apiKey = [] then st\<lparr>error := Some (missingKey t), isSettingsOpen := True\<rparr>
      else
        (let targets = (case subset' of Some sub \<Rightarrow> sub | None \<Rightarrow> filter (\<lambda>s. \<not> completed s) stocks0)
         in if targets = [] then st
            else
              (let symbols = array_from_set (map symbol targets)
               in case snd (call_with_surplus (fetchStockPrices env generateContent JSON_parse) symbols apiKey) of
                    Inr results \<Rightarrow>
                      st\<lparr>stocks := map (merge_update symbols results now) (stocks st),
                         isLoading := False, error := None\<rparr>
                  | Inl err \<Rightarrow>
                      st\<lparr>stocks := map (merge_failure symbols now) (stocks st),
                         isLoading := False, error := Some (errorUpdate t)\<rparr>)))"

subsection \<open>Creation, deletion, completion\<close>

text \<open>
  \<open>AddTrackerForm.handleSubmit\<close> on the three texts of the form; \<open>uuid\<close> is the value of
  \<open>crypto.randomUUID()\<close>. A price text that \<open>parseFloat\<close> reads as NaN gives a tracker
  that the numbers of the model cannot hold (\<open>NaN_price\<close>).
\<close>

datatype submitted = Ignored | Added StockTracker | NaN_price

definition handleSubmit :: "string \<Rightarrow> string \<Rightarrow> string \<Rightarrow> string \<Rightarrow> submitted" where
  "handleSubmit uuid symbolText startPriceText targetPriceText =
     (if symbolText = [] \<or> startPriceText = [] \<or> targetPriceText = [] then Ignored
      else
        (case (parseFloat startPriceText, parseFloat targetPriceText) of
           (Some sp, Some tp) \<Rightarrow>
             Added \<lparr>id' = uuid, symbol = toUpperCase symbolText, companyName = None,
                    startPrice = sp, targetPrice = tp, currentPrice = None, lastUpdated = None,
                    sourceUrl = None, sourceTitle = None, isCompleted = None,
                    errorMessage = None\<rparr>
         | _ \<Rightarrow> NaN_price))"

text \<open>\<open>handleAddStock\<close>: the new tracker goes in front, then it alone is refreshed.\<close>

definition handleAddStock ::
  "environment \<Rightarrow> network \<Rightarrow> (string \<Rightarrow> data option) \<Rightarrow> translation \<Rightarrow> number \<Rightarrow> string
     \<Rightarrow> StockTracker \<Rightarrow> app \<Rightarrow> app" where
  "handleAddStock env generateContent JSON_parse t now apiKey newStock st =
     refreshPrices env generateContent JSON_parse t now apiKey (Some [newStock]) (stocks st)
       (st\<lparr>stocks := newStock # stocks st\<rparr>)"

definition handleDeleteStock :: "string \<Rightarrow> app \<Rightarrow> app" where
  "handleDeleteStock i st = st\<lparr>stocks := filter (\<lambda>s. id' s \<noteq> i) (stocks st)\<rparr>"

definition handleToggleComplete :: "string \<Rightarrow> app \<Rightarrow> app" where
  "handleToggleComplete i st =
     st\<lparr>stocks := map (\<lambda>s. if id' s = i then s\<lparr>isCompleted := Some (\<not> completed s)\<rparr> else s) (stocks st)\<rparr>"

subsection \<open>Staleness\<close>

definition isStale :: "number \<Rightarrow> StockTracker \<Rightarrow> bool" where
  "isStale now s \<longleftrightarrow>
     lastUpdated s = None \<or> now - (case lastUpdated s of None \<Rightarrow> 0 | Some u \<Rightarrow> u) > 3600000"

text \<open>
  The effect that runs when the credential is set: the trackers it passes to
  \<open>refreshPrices\<close>, or \<open>None\<close> when it starts no refresh.
\<close>

definition auto_refresh :: "string \<Rightarrow> number \<Rightarrow> StockTracker list \<Rightarrow> StockTracker list option" where
  "auto_refresh apiKey now stocks0 =
     (if apiKey = [] then None
      else
        (let activeStocks = filter (\<lambda>s. \<not> completed s) stocks0;
             needsUpdate = list_ex (isStale now) activeStocks
         in if needsUpdate \<and> activeStocks \<noteq> [] then Some (filter (isStale now) activeStocks)
            else None))"

subsection \<open>Sorting\<close>

definition getProgress :: "StockTracker \<Rightarrow> number" where
  "getProgress s =
     (case currentPrice s of
        None \<Rightarrow> - 9999
      | Some c \<Rightarrow>
          (let total = targetPrice s - startPrice s
           in if total = 0 then 0 else ((c - startPrice s) / total) * 100))"

definition compare_stocks :: "SortOption \<Rightarrow> StockTracker \<Rightarrow> StockTracker \<Rightarrow> number" where
  "compare_stocks sortBy a b =
     (if sortBy = ADDED_DESC then 0
      else
        (let pA = getProgress a; pB = getProgress b
         in if sortBy = PROGRESS_DESC then pB - pA
            else if sortBy = PROGRESS_ASC then pA - pB
            else 0))"

text \<open>
  \<open>Array.prototype.sort\<close> with a comparison function is a stable sort: an element goes
  before the first element after it that it does not have to follow.
\<close>

fun insert_sorted :: "('a \<Rightarrow> 'a \<Rightarrow> number) \<Rightarrow> 'a \<Rightarrow> 'a list \<Rightarrow> 'a list" where
  "insert_sorted cmp x [] = [x]"
| "insert_sorted cmp x (y # ys) =
     (if cmp x y \<le> 0 then x # y # ys else y # insert_sorted cmp x ys)"

definition array_sort :: "('a \<Rightarrow> 'a \<Rightarrow> number) \<Rightarrow> 'a list \<Rightarrow> 'a list" where
  "array_sort cmp xs = foldr (insert_sorted cmp) xs []"

definition getSortedStocks :: "SortOption \<Rightarrow> StockTracker list \<Rightarrow> StockTracker list" where
  "getSortedStocks sortBy list = array_sort (compare_stocks sortBy) list"

section \<open>Import\<close>

text \<open>
  The import reads what \<open>JSON.parse\<close> returns without a type. A JSON object lists its
  properties, each name once.
\<close>

datatype json = JNull | JBool bool | JNum number | JStr string | JArr "json list" | JObj "(string \<times> json) list"

text \<open>
  \<open>item.name\<close> for the names that the import reads (\<open>id\<close>, \<open>symbol\<close>, \<open>startPrice\<close>):
  \<open>null\<close> has no properties and the access throws; an array, a string, a number and a
  boolean have none of these names (\<open>None\<close> is \<open>undefined\<close>).
\<close>

fun get_property :: "json \<Rightarrow> string \<Rightarrow> js_error + json option" where
  "get_property JNull k = Inl TypeError"
| "get_property (JObj kvs) k = Inr (map_of kvs k)"
| "get_property _ k = Inr None"

fun truthy :: "json option \<Rightarrow> bool" where
  "truthy None = False"
| "truthy (Some JNull) = False"
| "truthy (Some (JBool b)) = b"
| "truthy (Some (JNum n)) = (n \<noteq> 0)"
| "truthy (Some (JStr s)) = (s \<noteq> [])"
| "truthy (Some (JArr _)) = True"
| "truthy (Some (JObj _)) = True"

text \<open>\<open>item.id && item.symbol && item.startPrice !== undefined\<close>, as a truth value.\<close>

definition looks_like_tracker :: "json \<Rightarrow> js_error + bool" where
  "looks_like_tracker item =
     (case get_property item ''id'' of
        Inl e \<Rightarrow> Inl e
      | Inr i \<Rightarrow>
          if \<not> truthy i then Inr False
          else
            (case get_property item ''symbol'' of
               Inl e \<Rightarrow> Inl e
             | Inr sy \<Rightarrow>
                 if \<not> truthy sy then Inr False
                 else
                   (case get_property item ''startPrice'' of
                      Inl e \<Rightarrow> Inl e
                    | Inr sp \<Rightarrow> Inr (sp \<noteq> None))))"

text \<open>\<open>Array.prototype.every\<close> with a callback that may throw.\<close>

fun array_every :: "('a \<Rightarrow> js_error + bool) \<Rightarrow> 'a list \<Rightarrow> js_error + bool" where
  "array_every p [] = Inr True"
| "array_every p (x # xs) =
     (case p x of
        Inl e \<Rightarrow> Inl e
      | Inr b \<Rightarrow> if b then array_every p xs else Inr False)"

text \<open>
  \<open>handleImportFile\<close>: \<open>file\<close> is the text of the selected file, \<open>None\<close> when no file was
  selected. The result is the tracker list afterwards and the text of the alert, if
  one is shown. The list is the value that \<open>JSON.parse\<close> gave, element by element.
\<close>

definition handleImportFile ::
  "(string \<Rightarrow> json option) \<Rightarrow> translation \<Rightarrow> string option \<Rightarrow> json list \<Rightarrow> json list \<times> string option" where
  "handleImportFile JSON_parse t file stocks0 =
     (case file of
        None \<Rightarrow> (stocks0, None)
      | Some content \<Rightarrow>
          (case JSON_parse content of
             None \<Rightarrow> (stocks0, Some (importError t))
           | Some parsedData \<Rightarrow>
               (case parsedData of
                  JArr items \<Rightarrow>
                    (case array_every looks_like_tracker items of
                       Inl e \<Rightarrow> (stocks0, Some (importError t))
                     | Inr isValid \<Rightarrow>
                         if isValid then (items, Some (importSuccess t))
                         else (stocks0, Some (importError t)))
                | _ \<Rightarrow> (stocks0, Some (importError t)))))"

text \<open>
  A tracker as the JSON value that the list holds for it (and that
  \<open>JSON.stringify\<close> writes): a property that is \<open>undefined\<close> is left out, \<open>null\<close> is
  \<open>JNull\<close>.
\<close>

definition optional_property :: "string \<Rightarrow> ('a \<Rightarrow> json) \<Rightarrow> 'a option \<Rightarrow> (string \<times> json) list" where
  "optional_property k f v = (case v of None \<Rightarrow> [] | Some x \<Rightarrow> [(k, f x)])"

definition nullable :: "('a \<Rightarrow> json) \<Rightarrow> 'a option \<Rightarrow> json" where
  "nullable f v = (case v of None \<Rightarrow> JNull | Some x \<Rightarrow> f x)"

definition tracker_json :: "StockTracker \<Rightarrow> json" where
  "tracker_json s =
     JObj ([(''id'', JStr (id' s)), (''symbol'', JStr (symbol s))] @
           optional_property ''companyName'' JStr (companyName s) @
           [(''startPrice'', JNum (startPrice s)), (''targetPrice'', JNum (targetPrice s)),
            (''currentPrice'', nullable JNum (currentPrice s)),
            (''lastUpdated'', nullable JNum (lastUpdated s))] @
           optional_property ''sourceUrl'' JStr (sourceUrl s) @
           optional_property ''sourceTitle'' JStr (sourceTitle s) @
           optional_property ''isCompleted'' JBool (isCompleted s) @
           optional_property ''errorMessage'' JStr (errorMessage s))"

section \<open>Notions of the specification\<close>

text \<open>
  A tracker qualifies for the automatic refresh when the effect passes it to
  \<open>refreshPrices\<close>.
\<close>

definition qualifies :: "string \<Rightarrow> number \<Rightarrow> StockTracker list \<Rightarrow> StockTracker \<Rightarrow> bool" where
  "qualifies apiKey now stocks0 s \<longleftrightarrow>
     (case auto_refresh apiKey now stocks0 of None \<Rightarrow> False | Some ts \<Rightarrow> s \<in> set ts)"

text \<open>
  The invariant of the data model: a tracker with \<open>lastUpdated\<close> set has a
  \<open>currentPrice\<close> or an \<open>errorMessage\<close>.
\<close>

definition tracker_ok :: "StockTracker \<Rightarrow> bool" where
  "tracker_ok s \<longleftrightarrow> (lastUpdated s \<noteq> None \<longrightarrow> currentPrice s \<noteq> None \<or> errorMessage s \<noteq> None)"

definition invariant :: "StockTracker list \<Rightarrow> bool" where
  "invariant ts = list_all tracker_ok ts"

text \<open>
  What the specification asks of an element of an imported file: a non-empty \<open>id\<close>,
  a non-empty \<open>symbol\<close>, a defined \<open>startPrice\<close>. A property is non-empty when it is
  there and is none of \<open>null\<close>, \<open>false\<close>, \<open>0\<close> and the empty text.
\<close>

definition has_defined :: "json \<Rightarrow> string \<Rightarrow> bool" where
  "has_defined item k = (case item of JObj kvs \<Rightarrow> map_of kvs k \<noteq> None | _ \<Rightarrow> False)"

definition has_nonempty :: "json \<Rightarrow> string \<Rightarrow> bool" where
  "has_nonempty item k =
     (case item of
        JObj kvs \<Rightarrow>
          (case map_of kvs k of
             None \<Rightarrow> False
           | Some v \<Rightarrow> v \<noteq> JNull \<and> v \<noteq> JBool False \<and> v \<noteq> JNum 0 \<and> v \<noteq> JStr [])
      | _ \<Rightarrow> False)"

definition importable_element :: "json \<Rightarrow> bool" where
  "importable_element item \<longleftrightarrow>
     has_nonempty item ''id'' \<and> has_nonempty item ''symbol'' \<and> has_defined item ''startPrice''"

section \<open>Notions for the fallback extraction\<close>

text \<open>The characters of a number as the price pattern reads it: digits and the dot.\<close>

definition number_char :: "char \<Rightarrow> bool" where
  "number_char c \<longleftrightarrow> is_digit c \<or> c = CHR ''.''"

text \<open>The character sets and the node lists of the two patterns.\<close>

definition not_brace :: cset where
  "not_brace = CSet True [(CHR ''}'', CHR ''}'')]"

definition number_chars :: cset where
  "number_chars = CSet False [(CHR ''0'', CHR ''9''), (CHR ''.'', CHR ''.'')]"

definition not_quote :: cset where
  "not_quote = CSet True [(dquote, dquote)]"

definition literals :: "string \<Rightarrow> node list" where
  "literals s = map (\<lambda>c. Atom (literal c) Once) s"

definition key_nodes :: "string \<Rightarrow> string \<Rightarrow> node list" where
  \<open>key_nodes sym' key =
     literals (''"'' @ sym' @ ''"'') @
     [Atom white_space Star, Atom (literal (CHR '':'')) Once, Atom white_space Star,
      Atom (literal (CHR ''{'')) Once, Atom not_brace Star] @
     literals (''"'' @ key @ ''"'') @
     [Atom white_space Star, Atom (literal (CHR '':'')) Once, Atom white_space Star]\<close>

definition price_tail :: "node list" where
  "price_tail = [GroupOpen, Atom number_chars Plus, GroupClose, Atom not_brace Star, Atom (literal (CHR ''}'')) Once]"

definition name_tail :: "node list" where
  "name_tail = [Atom (literal dquote) Once, GroupOpen, Atom not_quote Plus, GroupClose, Atom (literal dquote) Once]"

text \<open>The text of each pattern after the escaped symbol.\<close>

definition price_suffix :: string where
  \<open>price_suffix = ''"'' @ [backslash] @ ''s*:'' @ [backslash] @ ''s*{[^}]*"price"'' @
     [backslash] @ ''s*:'' @ [backslash] @ ''s*([0-9.]+)[^}]*}''\<close>

definition name_suffix :: string where
  \<open>name_suffix = ''"'' @ [backslash] @ ''s*:'' @ [backslash] @ ''s*{[^}]*"name"'' @
     [backslash] @ ''s*:'' @ [backslash] @ ''s*"([^"]+)"''\<close>

text \<open>
  A text spelled by a list of atoms: the declarative reading of a pattern without
  groups, with no order among the ways to match.
\<close>

fun spells :: "bool \<Rightarrow> (cset \<times> quant) list \<Rightarrow> string \<Rightarrow> bool" where
  "spells ic [] w \<longleftrightarrow> w = []"
| "spells ic ((cs, Once) # ps) w \<longleftrightarrow> (\<exists>c r. w = c # r \<and> cset_match ic cs c \<and> spells ic ps r)"
| "spells ic ((cs, Star) # ps) w \<longleftrightarrow>
     (\<exists>u r. w = u @ r \<and> (\<forall>c\<in>set u. cset_match ic cs c) \<and> spells ic ps r)"
| "spells ic ((cs, Plus) # ps) w \<longleftrightarrow>
     (\<exists>c u r. w = c # u @ r \<and> cset_match ic cs c \<and> (\<forall>d\<in>set u. cset_match ic cs d) \<and> spells ic ps r)"

definition atoms :: "(cset \<times> quant) list \<Rightarrow> node list" where
  "atoms ps = map (\<lambda>(cs, q). Atom cs q) ps"

definition lits :: "string \<Rightarrow> (cset \<times> quant) list" where
  "lits s = map (\<lambda>c. (literal c, Once)) s"

text \<open>Two texts that differ in the case of letters only.\<close>

definition same_ignoring_case :: "string \<Rightarrow> string \<Rightarrow> bool" where
  "same_ignoring_case a b \<longleftrightarrow> map upper_char a = map upper_char b"

definition key_atoms :: "string \<Rightarrow> string \<Rightarrow> (cset \<times> quant) list" where
  \<open>key_atoms sym' key =
     lits ''"'' @ lits sym' @ lits ''"'' @
     [(white_space, Star), (literal (CHR '':''), Once), (white_space, Star),
      (literal (CHR ''{''), Once), (not_brace, Star)] @
     lits ''"'' @ lits key @ lits ''"'' @
     [(white_space, Star), (literal (CHR '':''), Once), (white_space, Star)]\<close>

text \<open>
  A recognizable fragment \<open>"SYM": {... "price": num ...}\<close> at the start of \<open>rest\<close>: the
  quoted symbol, a colon, an opening brace, any text without a closing brace, the
  quoted key \<open>price\<close>, a colon, the number text \<open>num\<close> (digits and dots, as long as
  they go), any text without a closing brace, and the closing brace; white space is
  allowed around the colons, and letters match in either case.
\<close>

definition price_fragment :: "string \<Rightarrow> string \<Rightarrow> string \<Rightarrow> bool" where
  \<open>price_fragment sym' num rest \<longleftrightarrow>
     (\<exists>s k w1 w2 w3 w4 b1 b2 post.
        rest = ''"'' @ s @ ''"'' @ w1 @ '':'' @ w2 @ ''{'' @ b1 @ ''"'' @ k @ ''"'' @ w3 @ '':'' @ w4 @
               num @ b2 @ ''}'' @ post \<and>
        same_ignoring_case s sym' \<and> same_ignoring_case k ''price'' \<and>
        (\<forall>c\<in>set (w1 @ w2 @ w3 @ w4). is_space c) \<and>
        CHR ''}'' \<notin> set (b1 @ b2) \<and>
        num \<noteq> [] \<and> (\<forall>c\<in>set num. number_char c) \<and>
        (case b2 of [] \<Rightarrow> True | c # _ \<Rightarrow> \<not> number_char c))\<close>

definition recognizable :: "string \<Rightarrow> string \<Rightarrow> string \<Rightarrow> bool" where
  "recognizable txt sym' num \<longleftrightarrow> (\<exists>pre rest. txt = pre @ rest \<and> price_fragment sym' num rest)"

text \<open>The price that a number text resolves to: what \<open>parseFloat\<close> reads, 0 for NaN.\<close>

definition price_of :: "string \<Rightarrow> number" where
  "price_of num = (case parseFloat num of None \<Rightarrow> 0 | Some p \<Rightarrow> p)"

section \<open>Example inputs\<close>

definition example_tracker :: "string \<Rightarrow> string \<Rightarrow> StockTracker" where
  "example_tracker i sy =
     \<lparr>id' = i, symbol = sy, companyName = None, startPrice = 100, targetPrice = 200,
      currentPrice = None, lastUpdated = None, sourceUrl = None, sourceTitle = None,
      isCompleted = None, errorMessage = None\<rparr>"

definition example_app :: "StockTracker list \<Rightarrow> app" where
  "example_app ts = \<lparr>stocks = ts, isLoading = False, error = None, isSettingsOpen = False\<rparr>"

definition example_translation :: translation where
  "example_translation =
     \<lparr>missingKey = ''Missing API key'', errorUpdate = ''Failed to update prices'',
      importSuccess = ''Import successful'', importError = ''Invalid file''\<rparr>"

definition example_env :: environment where
  "example_env = \<lparr>API_KEY = Some ''key-of-the-build''\<rparr>"

text \<open>A remote service that answers every prompt with the text \<open>txt\<close>, and one that fails.\<close>

definition answering :: "string \<Rightarrow> network" where
  "answering txt key prompt = Inr \<lparr>response_text = Some txt, groundingChunks = []\<rparr>"

definition failing :: network where
  "failing key prompt = Inl (RequestFailed ''Request timed out'')"

text \<open>A remote service that answers only for the credential of \<open>example_env\<close>.\<close>

definition keyed :: network where
  "keyed key prompt =
     (if key = Some ''key-of-the-build'' then Inr \<lparr>response_text = Some ''{}'', groundingChunks = []\<rparr>
      else Inl (RequestFailed ''API key not valid''))"

text \<open>A \<open>JSON.parse\<close> that reads every text as the object \<open>{"AAPL": {"price": p, "name": "Apple Inc."}}\<close>.\<close>

definition parses_aapl :: "number \<Rightarrow> string \<Rightarrow> data option" where
  "parses_aapl p txt = Some [''AAPL'' \<mapsto> \<lparr>entry_price = Some p, entry_name = Some ''Apple Inc.''\<rparr>]"

definition parses_nothing :: "string \<Rightarrow> data option" where
  "parses_nothing txt = None"

text \<open>Two answers that are not JSON.\<close>

definition two_prices :: string where
  \<open>two_prices = ''"A": {"price": 1} "A": {"price": 2}''\<close>

definition parenthesis_answer :: string where
  \<open>parenthesis_answer = ''Prices today: "BRK(B)": {"price": 12.5, "name": "Berkshire"} (delayed)''\<close>

text \<open>A \<open>JSON.parse\<close> of the import that reads every file as the value \<open>j\<close>, and one that throws.\<close>

definition file_holds :: "json \<Rightarrow> string \<Rightarrow> json option" where
  "file_holds j content = Some j"

definition file_is_no_json :: "string \<Rightarrow> json option" where
  "file_is_no_json content = None"

section \<open>Properties of the ingestion results\<close>

lemma set_array_from_set [simp]: "set (array_from_set xs) = set xs"
  by (induction xs rule: array_from_set.induct) auto

lemma distinct_array_from_set [simp]: "distinct (array_from_set xs)"
  by (induction xs rule: array_from_set.induct) auto

lemma fetch_result_symbols:
  "snd (fetchStockPrices env gen parse symbols) = Inr results \<Longrightarrow> map result_symbol results = symbols"
  by (auto simp: fetchStockPrices_def Let_def make_result_def comp_def split: if_splits sum.splits)

lemma find_unique:
  "distinct (map f xs) \<Longrightarrow> r \<in> set xs \<Longrightarrow> f r = k \<Longrightarrow> find (\<lambda>x. f x = k) xs = Some r"
  by (induction xs) (auto simp: image_iff)

lemma find_none_iff: "find P xs = None \<longleftrightarrow> (\<forall>x\<in>set xs. \<not> P x)"
  by (induction xs) auto

lemma refresh_stocks_success:
  assumes "apiKey \<noteq> []"
    and "targets = (case subset' of Some sub \<Rightarrow> sub | None \<Rightarrow> filter (\<lambda>s. \<not> completed s) stocks0)"
    and "targets \<noteq> []"
    and "symbols = array_from_set (map symbol targets)"
    and "snd (fetchStockPrices env gen parse symbols) = Inr results"
  shows "stocks (refreshPrices env gen parse t now apiKey subset' stocks0 st) =
           map (merge_update symbols results now) (stocks st)"
  using assms by (simp add: refreshPrices_def call_with_surplus_def Let_def)

lemma refresh_stocks_failure:
  assumes "apiKey \<noteq> []"
    and "targets = (case subset' of Some sub \<Rightarrow> sub | None \<Rightarrow> filter (\<lambda>s. \<not> completed s) stocks0)"
    and "targets \<noteq> []"
    and "symbols = array_from_set (map symbol targets)"
    and "snd (fetchStockPrices env gen parse symbols) = Inl e"
  shows "stocks (refreshPrices env gen parse t now apiKey subset' stocks0 st) =
           map (merge_failure symbols now) (stocks st)"
  using assms by (simp add: refreshPrices_def call_with_surplus_def Let_def)

section \<open>Reconciliation merge\<close>

text \<open>
  Claim C1. After an ingestion that returned, every tracker of the current list whose
  symbol was requested and for which the results hold a result with a positive price
  becomes the same tracker with \<open>currentPrice\<close> that price, \<open>companyName\<close> the
  name of the result if that name is not empty and the previous name otherwise,
  \<open>lastUpdated\<close> the current time, the source attribution of the result, and no
  \<open>errorMessage\<close>; its other fields are as before.
\<close>

theorem merge_success:
  assumes key: "apiKey \<noteq> []"
    and targets: "targets = (case subset' of Some sub \<Rightarrow> sub | None \<Rightarrow> filter (\<lambda>s. \<not> completed s) stocks0)"
    and symbols: "symbols = array_from_set (map symbol targets)"
    and fetched: "snd (fetchStockPrices env gen parse symbols) = Inr results"
    and i: "i < length (stocks st)"
    and stock: "stock = stocks st ! i"
    and requested: "symbol stock \<in> set symbols"
    and r: "r \<in> set results" "result_symbol r = symbol stock" "result_price r > 0"
  shows "stocks (refreshPrices env gen parse t now apiKey subset' stocks0 st) ! i =
           stock\<lparr>currentPrice := Some (result_price r),
                 companyName := (case result_companyName r of
                                   None \<Rightarrow> companyName stock
                                 | Some n \<Rightarrow> if n = [] then companyName stock else Some n),
                 lastUpdated := Some now,
                 sourceUrl := result_sourceUrl r,
                 sourceTitle := result_sourceTitle r,
                 errorMessage := None\<rparr>"
proof -
  have ne: "targets \<noteq> []"
    using requested symbols by auto
  have "distinct (map result_symbol results)"
    using fetch_result_symbols [OF fetched] symbols by simp
  then have found: "find (\<lambda>x. result_symbol x = symbol stock) results = Some r"
    using r by (intro find_unique) auto
  have "stocks (refreshPrices env gen parse t now apiKey subset' stocks0 st) ! i =
          merge_update symbols results now stock"
    using refresh_stocks_success [OF key targets ne symbols fetched] i stock by simp
  also have "\<dots> = stock\<lparr>currentPrice := Some (result_price r),
                 companyName := (case result_companyName r of
                                   None \<Rightarrow> companyName stock
                                 | Some n \<Rightarrow> if n = [] then companyName stock else Some n),
                 lastUpdated := Some now,
                 sourceUrl := result_sourceUrl r,
                 sourceTitle := result_sourceTitle r,
                 errorMessage := None\<rparr>"
    using requested found r(3)
    by (simp add: merge_update_def truthy_string_def split: option.splits)
  finally show ?thesis .
qed

theorem merge_success_witness:
  "stocks (refreshPrices example_env (answering ''{}'') (parses_aapl 150) example_translation 1000 ''k''
      (Some [example_tracker ''1'' ''AAPL'']) [] (example_app [example_tracker ''1'' ''AAPL''])) ! 0 =
   (example_tracker ''1'' ''AAPL'')\<lparr>currentPrice := Some 150, companyName := Some ''Apple Inc.'',
      lastUpdated := Some 1000, errorMessage := None\<rparr>"
  using merge_success [where apiKey = "''k''" and targets = "[example_tracker ''1'' ''AAPL'']"
      and subset' = "Some [example_tracker ''1'' ''AAPL'']" and ?stocks0.0 = "[]"
      and symbols = "[''AAPL'']" and env = example_env and gen = "answering ''{}''"
      and parse = "parses_aapl 150"
      and results = "[\<lparr>result_symbol = ''AAPL'', result_price = 150, result_companyName = Some ''Apple Inc.'',
         result_sourceUrl = None, result_sourceTitle = None\<rparr>]"
      and i = 0 and st = "example_app [example_tracker ''1'' ''AAPL'']"
      and stock = "example_tracker ''1'' ''AAPL''"
      and r = "\<lparr>result_symbol = ''AAPL'', result_price = 150, result_companyName = Some ''Apple Inc.'',
         result_sourceUrl = None, result_sourceTitle = None\<rparr>" and t = example_translation and now = 1000]
  by (simp add: example_tracker_def example_app_def fetchStockPrices_def answering_def parses_aapl_def
      parse_response_def make_result_def first_web_chunk_def Let_def)


lemma merge_update_unresolved:
  assumes "symbol stock \<in> set symbols"
    and "\<forall>r\<in>set results. result_symbol r = symbol stock \<longrightarrow> result_price r \<le> 0"
  shows "merge_update symbols results now stock =
           stock\<lparr>lastUpdated := Some now, errorMessage := Some ''Symbol not found or data unavailable''\<rparr>"
proof (cases "find (\<lambda>r. result_symbol r = symbol stock) results")
  case None
  then show ?thesis using assms(1) by (simp add: merge_update_def)
next
  case (Some u)
  then have "u \<in> set results" "result_symbol u = symbol stock"
    by (auto simp: find_Some_iff)
  then have "\<not> result_price u > 0"
    using assms(2) by fastforce
  then show ?thesis using assms(1) Some by (simp add: merge_update_def)
qed

text \<open>
  Claim C2. A tracker of the current list whose symbol was requested and for which no
  usable price was obtained keeps its \<open>currentPrice\<close> (and every other field), except
  that \<open>lastUpdated\<close> becomes the current time and \<open>errorMessage\<close> a fixed text:
  \<open>Update failed\<close> when the ingestion threw, \<open>Symbol not found or data unavailable\<close>
  when it returned and every result for the symbol has a price that is not positive
  (the sentinel 0 among them). The third part is the same for any list of results,
  with none for the symbol among them.
\<close>

theorem merge_unresolved:
  assumes key: "apiKey \<noteq> []"
    and targets: "targets = (case subset' of Some sub \<Rightarrow> sub | None \<Rightarrow> filter (\<lambda>s. \<not> completed s) stocks0)"
    and symbols: "symbols = array_from_set (map symbol targets)"
    and i: "i < length (stocks st)"
    and stock: "stock = stocks st ! i"
    and requested: "symbol stock \<in> set symbols"
  shows "(snd (fetchStockPrices env gen parse symbols) = Inl e \<longrightarrow>
            stocks (refreshPrices env gen parse t now apiKey subset' stocks0 st) ! i =
              stock\<lparr>lastUpdated := Some now, errorMessage := Some ''Update failed''\<rparr>) \<and>
         (snd (fetchStockPrices env gen parse symbols) = Inr results \<and>
          (\<forall>r\<in>set results. result_symbol r = symbol stock \<longrightarrow> result_price r \<le> 0) \<longrightarrow>
            stocks (refreshPrices env gen parse t now apiKey subset' stocks0 st) ! i =
              stock\<lparr>lastUpdated := Some now,
                    errorMessage := Some ''Symbol not found or data unavailable''\<rparr>) \<and>
         ((\<forall>r\<in>set rs. result_symbol r = symbol stock \<longrightarrow> result_price r \<le> 0) \<longrightarrow>
            merge_update symbols rs now stock =
              stock\<lparr>lastUpdated := Some now,
                    errorMessage := Some ''Symbol not found or data unavailable''\<rparr>)"
proof (intro conjI impI)
  have ne: "targets \<noteq> []"
    using requested symbols by auto
  {
    assume "snd (fetchStockPrices env gen parse symbols) = Inl e"
    then show "stocks (refreshPrices env gen parse t now apiKey subset' stocks0 st) ! i =
                 stock\<lparr>lastUpdated := Some now, errorMessage := Some ''Update failed''\<rparr>"
      using refresh_stocks_failure [OF key targets ne symbols] i stock requested
      by (simp add: merge_failure_def)
  next
    assume "snd (fetchStockPrices env gen parse symbols) = Inr results \<and>
            (\<forall>r\<in>set results. result_symbol r = symbol stock \<longrightarrow> result_price r \<le> 0)"
    then show "stocks (refreshPrices env gen parse t now apiKey subset' stocks0 st) ! i =
                 stock\<lparr>lastUpdated := Some now,
                       errorMessage := Some ''Symbol not found or data unavailable''\<rparr>"
      using refresh_stocks_success [OF key targets ne symbols] i stock
        merge_update_unresolved [OF requested]
      by simp
  next
    assume "\<forall>r\<in>set rs. result_symbol r = symbol stock \<longrightarrow> result_price r \<le> 0"
    then show "merge_update symbols rs now stock =
                 stock\<lparr>lastUpdated := Some now,
                       errorMessage := Some ''Symbol not found or data unavailable''\<rparr>"
      by (rule merge_update_unresolved [OF requested])
  }
qed

theorem merge_unresolved_witness:
  "stocks (refreshPrices example_env failing parses_nothing example_translation 1000 ''k''
      (Some [example_tracker ''1'' ''AAPL'']) [example_tracker ''1'' ''AAPL'']
      (example_app [example_tracker ''1'' ''AAPL''])) ! 0 =
     (example_tracker ''1'' ''AAPL'')\<lparr>lastUpdated := Some 1000, errorMessage := Some ''Update failed''\<rparr> \<and>
   stocks (refreshPrices example_env (answering ''{}'') (parses_aapl 0) example_translation 1000 ''k''
      (Some [example_tracker ''1'' ''AAPL'']) [example_tracker ''1'' ''AAPL'']
      (example_app [example_tracker ''1'' ''AAPL''])) ! 0 =
     (example_tracker ''1'' ''AAPL'')\<lparr>lastUpdated := Some 1000,
        errorMessage := Some ''Symbol not found or data unavailable''\<rparr> \<and>
   merge_update [''AAPL''] [] 1000 (example_tracker ''1'' ''AAPL'') =
     (example_tracker ''1'' ''AAPL'')\<lparr>lastUpdated := Some 1000,
        errorMessage := Some ''Symbol not found or data unavailable''\<rparr>"
  using
    merge_unresolved [where apiKey = "''k''" and targets = "[example_tracker ''1'' ''AAPL'']"
      and subset' = "Some [example_tracker ''1'' ''AAPL'']" and ?stocks0.0 = "[example_tracker ''1'' ''AAPL'']"
      and symbols = "[''AAPL'']" and env = example_env and gen = failing and parse = parses_nothing
      and i = 0 and st = "example_app [example_tracker ''1'' ''AAPL'']"
      and stock = "example_tracker ''1'' ''AAPL''" and t = example_translation and now = 1000
      and e = "RequestFailed ''Request timed out''" and rs = "[]" and results = "[]"]
    merge_unresolved [where apiKey = "''k''" and targets = "[example_tracker ''1'' ''AAPL'']"
      and subset' = "Some [example_tracker ''1'' ''AAPL'']" and ?stocks0.0 = "[example_tracker ''1'' ''AAPL'']"
      and symbols = "[''AAPL'']" and env = example_env and gen = "answering ''{}''" and parse = "parses_aapl 0"
      and i = 0 and st = "example_app [example_tracker ''1'' ''AAPL'']"
      and stock = "example_tracker ''1'' ''AAPL''" and t = example_translation and now = 1000
      and results = "[\<lparr>result_symbol = ''AAPL'', result_price = 0, result_companyName = Some ''Apple Inc.'',
         result_sourceUrl = None, result_sourceTitle = None\<rparr>]" and rs = "[]"]
  by (simp add: example_tracker_def example_app_def fetchStockPrices_def answering_def failing_def
      parses_aapl_def parse_response_def make_result_def first_web_chunk_def Let_def)

section \<open>Frame of the merge\<close>

text \<open>
  Claim C3, as stated, fails: the merge selects by symbol, so a tracker outside the
  target subset that shares its symbol with a target is rewritten, after an ingestion
  that returned and after one that threw. The two trackers below have the symbol
  \<open>AAPL\<close>; only the first is a target, and the second is changed.
\<close>

theorem frame_subset_counterexample:
  "example_tracker ''2'' ''AAPL'' \<notin> set [example_tracker ''1'' ''AAPL''] \<and>
   stocks (refreshPrices example_env (answering ''{}'') (parses_aapl 150) example_translation 1000 ''k''
      (Some [example_tracker ''1'' ''AAPL''])
      [example_tracker ''1'' ''AAPL'', example_tracker ''2'' ''AAPL'']
      (example_app [example_tracker ''1'' ''AAPL'', example_tracker ''2'' ''AAPL''])) ! 1
     \<noteq> example_tracker ''2'' ''AAPL'' \<and>
   stocks (refreshPrices example_env failing parses_nothing example_translation 1000 ''k''
      (Some [example_tracker ''1'' ''AAPL''])
      [example_tracker ''1'' ''AAPL'', example_tracker ''2'' ''AAPL'']
      (example_app [example_tracker ''1'' ''AAPL'', example_tracker ''2'' ''AAPL''])) ! 1
     \<noteq> example_tracker ''2'' ''AAPL''"
  by (simp add: example_tracker_def example_app_def refreshPrices_def call_with_surplus_def
      fetchStockPrices_def answering_def failing_def parses_aapl_def parse_response_def make_result_def
      first_web_chunk_def merge_update_def merge_failure_def Let_def)

text \<open>
  Claim C3, amended. A tracker whose symbol is not a symbol of a target is left as it
  is, whatever the credential and whatever the ingestion does, and the list keeps its
  length.
\<close>

theorem frame_symbols:
  assumes targets: "targets = (case subset' of Some sub \<Rightarrow> sub | None \<Rightarrow> filter (\<lambda>s. \<not> completed s) stocks0)"
    and i: "i < length (stocks st)"
    and other: "symbol (stocks st ! i) \<notin> set (map symbol targets)"
  shows "stocks (refreshPrices env gen parse t now apiKey subset' stocks0 st) ! i = stocks st ! i \<and>
         length (stocks (refreshPrices env gen parse t now apiKey subset' stocks0 st)) = length (stocks st)"
  using assms
  by (auto simp: refreshPrices_def call_with_surplus_def Let_def merge_update_def merge_failure_def
      split: sum.splits)

theorem frame_symbols_witness:
  "stocks (refreshPrices example_env (answering ''{}'') (parses_aapl 150) example_translation 1000 ''k''
      (Some [example_tracker ''1'' ''AAPL''])
      [example_tracker ''1'' ''AAPL'', example_tracker ''2'' ''MSFT'']
      (example_app [example_tracker ''1'' ''AAPL'', example_tracker ''2'' ''MSFT''])) ! 1
     = example_tracker ''2'' ''MSFT''"
  using frame_symbols [where targets = "[example_tracker ''1'' ''AAPL'']"
      and subset' = "Some [example_tracker ''1'' ''AAPL'']"
      and ?stocks0.0 = "[example_tracker ''1'' ''AAPL'', example_tracker ''2'' ''MSFT'']"
      and st = "example_app [example_tracker ''1'' ''AAPL'', example_tracker ''2'' ''MSFT'']"
      and i = 1 and env = example_env and gen = "answering ''{}''" and parse = "parses_aapl 150"
      and t = example_translation and now = 1000 and apiKey = "''k''"]
  by (simp add: example_tracker_def example_app_def)


section \<open>One result per requested symbol\<close>





section \<open>The credential of the caller\<close>

text \<open>
  Claim C10. The credential that the controller passes as a second argument has no
  effect on the ingestion call; two runs of \<open>refreshPrices\<close> that differ only in a
  non-empty credential give the same state; and \<open>fetchStockPrices\<close> depends on the
  remote service only through its answers for the credential of the environment.
\<close>

theorem credential_ignored:
  "call_with_surplus (fetchStockPrices env gen parse) symbols apiKey1 =
     call_with_surplus (fetchStockPrices env gen parse) symbols apiKey2 \<and>
   (apiKey1 \<noteq> [] \<and> apiKey2 \<noteq> [] \<longrightarrow>
      refreshPrices env gen parse t now apiKey1 subset' stocks0 st =
        refreshPrices env gen parse t now apiKey2 subset' stocks0 st) \<and>
   ((\<forall>prompt. gen (API_KEY env) prompt = gen' (API_KEY env) prompt) \<longrightarrow>
      fetchStockPrices env gen parse symbols = fetchStockPrices env gen' parse symbols)"
proof (intro conjI impI)
  show "call_with_surplus (fetchStockPrices env gen parse) symbols apiKey1 =
          call_with_surplus (fetchStockPrices env gen parse) symbols apiKey2"
    by (simp add: call_with_surplus_def)
next
  assume "apiKey1 \<noteq> [] \<and> apiKey2 \<noteq> []"
  then show "refreshPrices env gen parse t now apiKey1 subset' stocks0 st =
               refreshPrices env gen parse t now apiKey2 subset' stocks0 st"
    unfolding refreshPrices_def call_with_surplus_def by simp
next
  assume "\<forall>prompt. gen (API_KEY env) prompt = gen' (API_KEY env) prompt"
  then show "fetchStockPrices env gen parse symbols = fetchStockPrices env gen' parse symbols"
    by (simp add: fetchStockPrices_def)
qed

theorem credential_ignored_witness:
  "refreshPrices example_env keyed (parses_aapl 150) example_translation 1000 ''key-of-the-user''
      (Some [example_tracker ''1'' ''AAPL'']) [] (example_app [example_tracker ''1'' ''AAPL'']) =
   refreshPrices example_env keyed (parses_aapl 150) example_translation 1000 ''another-key''
      (Some [example_tracker ''1'' ''AAPL'']) [] (example_app [example_tracker ''1'' ''AAPL'']) \<and>
   fetchStockPrices example_env keyed (parses_aapl 150) [''AAPL''] =
     fetchStockPrices example_env (answering ''{}'') (parses_aapl 150) [''AAPL'']"
  using
    credential_ignored [where env = example_env and gen = keyed and parse = "parses_aapl 150"
      and t = example_translation and now = 1000 and ?apiKey1.0 = "''key-of-the-user''"
      and ?apiKey2.0 = "''another-key''" and subset' = "Some [example_tracker ''1'' ''AAPL'']"
      and ?stocks0.0 = "[]" and st = "example_app [example_tracker ''1'' ''AAPL'']"
      and gen' = "answering ''{}''" and symbols = "[''AAPL'']"]
  by (simp add: keyed_def answering_def example_env_def)


section \<open>Staleness policy\<close>

lemma qualifies_iff:
  assumes "apiKey \<noteq> []"
  shows "qualifies apiKey now stocks0 s \<longleftrightarrow> s \<in> set stocks0 \<and> \<not> completed s \<and> isStale now s"
  using assms by (auto simp: qualifies_def auto_refresh_def Let_def list_ex_iff filter_empty_conv)

text \<open>
  Claim C7. With a credential set, the effect passes a tracker of the list to
  \<open>refreshPrices\<close> if and only if the tracker is not completed and its \<open>lastUpdated\<close>
  is absent or more than 3,600,000 ms before the current time. At the boundary: a
  tracker that is not completed and was updated 3,600,001 ms ago qualifies, one
  updated 3,599,999 ms ago does not, and one never updated qualifies.
\<close>

theorem staleness:
  "(apiKey \<noteq> [] \<longrightarrow>
      (qualifies apiKey now stocks0 s \<longleftrightarrow>
         s \<in> set stocks0 \<and> \<not> completed s \<and>
         (lastUpdated s = None \<or> (\<exists>u. lastUpdated s = Some u \<and> now - u > 3600000)))) \<and>
   (apiKey \<noteq> [] \<and> s \<in> set stocks0 \<and> \<not> completed s \<and> lastUpdated s = Some (now - 3600001) \<longrightarrow>
      qualifies apiKey now stocks0 s) \<and>
   (lastUpdated s = Some (now - 3599999) \<longrightarrow> \<not> qualifies apiKey now stocks0 s) \<and>
   (apiKey \<noteq> [] \<and> s \<in> set stocks0 \<and> \<not> completed s \<and> lastUpdated s = None \<longrightarrow>
      qualifies apiKey now stocks0 s)"
proof (intro conjI impI)
  assume "apiKey \<noteq> []"
  then show "qualifies apiKey now stocks0 s \<longleftrightarrow>
         s \<in> set stocks0 \<and> \<not> completed s \<and>
         (lastUpdated s = None \<or> (\<exists>u. lastUpdated s = Some u \<and> now - u > 3600000))"
    by (auto simp: qualifies_iff isStale_def split: option.splits)
next
  assume "apiKey \<noteq> [] \<and> s \<in> set stocks0 \<and> \<not> completed s \<and> lastUpdated s = Some (now - 3600001)"
  then show "qualifies apiKey now stocks0 s"
    by (simp add: qualifies_iff isStale_def)
next
  assume old: "lastUpdated s = Some (now - 3599999)"
  show "\<not> qualifies apiKey now stocks0 s"
  proof (cases "apiKey = []")
    case True
    then show ?thesis by (simp add: qualifies_def auto_refresh_def)
  next
    case False
    then show ?thesis using old by (simp add: qualifies_iff isStale_def)
  qed
next
  assume "apiKey \<noteq> [] \<and> s \<in> set stocks0 \<and> \<not> completed s \<and> lastUpdated s = None"
  then show "qualifies apiKey now stocks0 s"
    by (simp add: qualifies_iff isStale_def)
qed

theorem staleness_witness:
  "qualifies ''k'' 5000000 [(example_tracker ''1'' ''AAPL'')\<lparr>lastUpdated := Some 1399999\<rparr>]
      ((example_tracker ''1'' ''AAPL'')\<lparr>lastUpdated := Some 1399999\<rparr>) \<and>
   \<not> qualifies ''k'' 5000000 [(example_tracker ''1'' ''AAPL'')\<lparr>lastUpdated := Some 1400001\<rparr>]
      ((example_tracker ''1'' ''AAPL'')\<lparr>lastUpdated := Some 1400001\<rparr>) \<and>
   qualifies ''k'' 5000000 [example_tracker ''1'' ''AAPL''] (example_tracker ''1'' ''AAPL'') \<and>
   \<not> qualifies ''k'' 5000000 [(example_tracker ''1'' ''AAPL'')\<lparr>isCompleted := Some True\<rparr>]
      ((example_tracker ''1'' ''AAPL'')\<lparr>isCompleted := Some True\<rparr>)"
  using
    staleness [where apiKey = "''k''" and now = 5000000
      and ?stocks0.0 = "[(example_tracker ''1'' ''AAPL'')\<lparr>lastUpdated := Some 1399999\<rparr>]"
      and s = "(example_tracker ''1'' ''AAPL'')\<lparr>lastUpdated := Some 1399999\<rparr>"]
    staleness [where apiKey = "''k''" and now = 5000000
      and ?stocks0.0 = "[(example_tracker ''1'' ''AAPL'')\<lparr>lastUpdated := Some 1400001\<rparr>]"
      and s = "(example_tracker ''1'' ''AAPL'')\<lparr>lastUpdated := Some 1400001\<rparr>"]
    staleness [where apiKey = "''k''" and now = 5000000
      and ?stocks0.0 = "[example_tracker ''1'' ''AAPL'']"
      and s = "example_tracker ''1'' ''AAPL''"]
    staleness [where apiKey = "''k''" and now = 5000000
      and ?stocks0.0 = "[(example_tracker ''1'' ''AAPL'')\<lparr>isCompleted := Some True\<rparr>]"
      and s = "(example_tracker ''1'' ''AAPL'')\<lparr>isCompleted := Some True\<rparr>"]
  by (simp add: example_tracker_def completed_def)

section \<open>Sort policy\<close>

lemma set_insert_sorted [simp]: "set (insert_sorted cmp x ys) = insert x (set ys)"
  by (induction ys) auto

lemma length_insert_sorted [simp]: "length (insert_sorted cmp x ys) = Suc (length ys)"
  by (induction ys) auto

lemma set_array_sort [simp]: "set (array_sort cmp xs) = set xs"
  by (induction xs) (auto simp: array_sort_def)

lemma length_array_sort [simp]: "length (array_sort cmp xs) = length xs"
  by (induction xs) (auto simp: array_sort_def)

lemma sorted_insert_desc:
  "sorted (map (\<lambda>s. - getProgress s) ys) \<Longrightarrow>
   sorted (map (\<lambda>s. - getProgress s) (insert_sorted (compare_stocks PROGRESS_DESC) x ys))"
  by (induction ys) (auto simp: compare_stocks_def Let_def)

lemma sorted_array_sort_desc:
  "sorted (map (\<lambda>s. - getProgress s) (array_sort (compare_stocks PROGRESS_DESC) xs))"
  by (induction xs) (auto simp: array_sort_def intro: sorted_insert_desc)

text \<open>
  Claim C8. The progress of a tracker without a price is the fixed value -9999; with
  a price, it is 0 when target and start price are equal, and otherwise
  (currentPrice - startPrice) / (targetPrice - startPrice) * 100. Three trackers with
  progress 10, no price and 90, in any order, are sorted to 90, 10, no price by the
  descending sort; and the descending sort of any list is a rearrangement of it in
  which the progress never increases, so that whatever stands after a tracker
  without a price has a progress of at most -9999.
\<close>

theorem progress_sort:
  "(currentPrice s = None \<longrightarrow> getProgress s = - 9999) \<and>
   (currentPrice s = Some p \<and> targetPrice s = startPrice s \<longrightarrow> getProgress s = 0) \<and>
   (currentPrice s = Some p \<and> targetPrice s \<noteq> startPrice s \<longrightarrow>
      getProgress s = ((p - startPrice s) / (targetPrice s - startPrice s)) * 100) \<and>
   (getProgress a = 10 \<and> currentPrice b = None \<and> getProgress c = 90 \<and>
    xs \<in> set [[a, b, c], [a, c, b], [b, a, c], [b, c, a], [c, a, b], [c, b, a]] \<longrightarrow>
      getSortedStocks PROGRESS_DESC xs = [c, a, b]) \<and>
   sorted (map (\<lambda>s. - getProgress s) (getSortedStocks PROGRESS_DESC list)) \<and>
   set (getSortedStocks PROGRESS_DESC list) = set list \<and>
   length (getSortedStocks PROGRESS_DESC list) = length list \<and>
   (\<forall>i j. i < j \<and> j < length list \<and> currentPrice (getSortedStocks PROGRESS_DESC list ! i) = None \<longrightarrow>
      getProgress (getSortedStocks PROGRESS_DESC list ! j) \<le> - 9999)"
proof (intro conjI impI allI)
  assume h: "getProgress a = 10 \<and> currentPrice b = None \<and> getProgress c = 90 \<and>
    xs \<in> set [[a, b, c], [a, c, b], [b, a, c], [b, c, a], [c, a, b], [c, b, a]]"
  then have "getProgress b = - 9999"
    by (simp add: getProgress_def)
  with h show "getSortedStocks PROGRESS_DESC xs = [c, a, b]"
    by (auto simp: getSortedStocks_def array_sort_def compare_stocks_def)
next
  show "sorted (map (\<lambda>s. - getProgress s) (getSortedStocks PROGRESS_DESC list))"
    unfolding getSortedStocks_def by (rule sorted_array_sort_desc)
next
  fix i j
  assume h: "i < j \<and> j < length list \<and> currentPrice (getSortedStocks PROGRESS_DESC list ! i) = None"
  let ?xs = "getSortedStocks PROGRESS_DESC list"
  have len: "length ?xs = length list"
    by (simp add: getSortedStocks_def)
  have "sorted (map (\<lambda>s. - getProgress s) ?xs)"
    unfolding getSortedStocks_def by (rule sorted_array_sort_desc)
  then have "map (\<lambda>s. - getProgress s) ?xs ! i \<le> map (\<lambda>s. - getProgress s) ?xs ! j"
    using h len by (intro sorted_nth_mono) simp_all
  then have "getProgress (?xs ! j) \<le> getProgress (?xs ! i)"
    using h len by simp
  moreover have "getProgress (?xs ! i) = - 9999"
    using h by (simp add: getProgress_def)
  ultimately show "getProgress (?xs ! j) \<le> - 9999"
    by simp
qed (simp_all add: getProgress_def getSortedStocks_def)

theorem progress_sort_witness:
  "getProgress (example_tracker ''2'' ''B'') = - 9999 \<and>
   getProgress ((example_tracker ''4'' ''D'')\<lparr>targetPrice := 100, currentPrice := Some 150\<rparr>) = 0 \<and>
   getProgress ((example_tracker ''1'' ''A'')\<lparr>currentPrice := Some 110\<rparr>) = 10 \<and>
   getSortedStocks PROGRESS_DESC
     [(example_tracker ''1'' ''A'')\<lparr>currentPrice := Some 110\<rparr>, example_tracker ''2'' ''B'',
      (example_tracker ''3'' ''C'')\<lparr>currentPrice := Some 190\<rparr>] =
     [(example_tracker ''3'' ''C'')\<lparr>currentPrice := Some 190\<rparr>,
      (example_tracker ''1'' ''A'')\<lparr>currentPrice := Some 110\<rparr>, example_tracker ''2'' ''B'']"
  using
    progress_sort [where s = "example_tracker ''2'' ''B''"
      and a = "(example_tracker ''1'' ''A'')\<lparr>currentPrice := Some 110\<rparr>"
      and b = "example_tracker ''2'' ''B''"
      and c = "(example_tracker ''3'' ''C'')\<lparr>currentPrice := Some 190\<rparr>"
      and xs = "[(example_tracker ''1'' ''A'')\<lparr>currentPrice := Some 110\<rparr>, example_tracker ''2'' ''B'',
                 (example_tracker ''3'' ''C'')\<lparr>currentPrice := Some 190\<rparr>]"]
    progress_sort [where s = "(example_tracker ''4'' ''D'')\<lparr>targetPrice := 100, currentPrice := Some 150\<rparr>"
      and p = 150]
    progress_sort [where s = "(example_tracker ''1'' ''A'')\<lparr>currentPrice := Some 110\<rparr>" and p = 110]
  by (simp add: example_tracker_def getProgress_def)


section \<open>Validation of an imported file\<close>

lemma truthy_iff:
  "truthy v \<longleftrightarrow> (\<exists>x. v = Some x \<and> x \<noteq> JNull \<and> x \<noteq> JBool False \<and> x \<noteq> JNum 0 \<and> x \<noteq> JStr [])"
  by (cases v rule: truthy.cases) auto

lemma looks_like_tracker_iff:
  "looks_like_tracker item = Inr True \<longleftrightarrow> importable_element item"
proof (cases item)
  case (JObj kvs)
  then show ?thesis
    by (auto simp: looks_like_tracker_def importable_element_def has_nonempty_def has_defined_def
        truthy_iff split: option.splits)
qed (simp_all add: looks_like_tracker_def importable_element_def has_nonempty_def has_defined_def)

lemma array_every_iff:
  "array_every looks_like_tracker items = Inr True \<longleftrightarrow> (\<forall>item\<in>set items. importable_element item)"
proof (induction items)
  case Nil
  then show ?case by simp
next
  case (Cons item items)
  show ?case
  proof (cases "looks_like_tracker item")
    case (Inl e)
    then have "\<not> importable_element item"
      using looks_like_tracker_iff [of item] by simp
    then show ?thesis using Inl by simp
  next
    case (Inr b)
    then show ?thesis
      using Cons looks_like_tracker_iff [of item] by (cases b) simp_all
  qed
qed

text \<open>
  Claim C9. When the text of the file parses to an array whose elements all have a
  non-empty \<open>id\<close>, a non-empty \<open>symbol\<close> and a defined \<open>startPrice\<close>, the import
  replaces the tracker list by that array and reports success. In every other case
  (the text is not JSON, the value is not an array, or an element fails the test or
  is \<open>null\<close>) the list stays as it was and the error alert is shown.
\<close>

theorem import_replaces_iff_valid:
  "(JSON_parse content = Some (JArr items) \<and> (\<forall>item\<in>set items. importable_element item) \<longrightarrow>
      handleImportFile JSON_parse t (Some content) stocks0 = (items, Some (importSuccess t))) \<and>
   (\<not> (\<exists>items. JSON_parse content = Some (JArr items) \<and> (\<forall>item\<in>set items. importable_element item)) \<longrightarrow>
      handleImportFile JSON_parse t (Some content) stocks0 = (stocks0, Some (importError t)))"
proof (intro conjI impI)
  assume "JSON_parse content = Some (JArr items) \<and> (\<forall>item\<in>set items. importable_element item)"
  then show "handleImportFile JSON_parse t (Some content) stocks0 = (items, Some (importSuccess t))"
    using array_every_iff [of items] by (simp add: handleImportFile_def)
next
  assume no: "\<not> (\<exists>items. JSON_parse content = Some (JArr items) \<and> (\<forall>item\<in>set items. importable_element item))"
  show "handleImportFile JSON_parse t (Some content) stocks0 = (stocks0, Some (importError t))"
  proof (cases "JSON_parse content")
    case None
    then show ?thesis by (simp add: handleImportFile_def)
  next
    case (Some parsedData)
    show ?thesis
    proof (cases parsedData)
      case (JArr its)
      then have "array_every looks_like_tracker its \<noteq> Inr True"
        using no Some array_every_iff [of its] by simp
      then show ?thesis
        using Some JArr by (auto simp: handleImportFile_def split: sum.splits)
    qed (simp_all add: handleImportFile_def Some)
  qed
qed

theorem import_replaces_iff_valid_witness:
  "handleImportFile (file_holds (JArr [tracker_json (example_tracker ''1'' ''AAPL'')])) example_translation
      (Some ''the file'') [tracker_json (example_tracker ''2'' ''MSFT'')] =
     ([tracker_json (example_tracker ''1'' ''AAPL'')], Some ''Import successful'') \<and>
   handleImportFile (file_holds (JObj [(''id'', JStr ''1''), (''symbol'', JStr ''AAPL''), (''startPrice'', JNum 100)]))
      example_translation (Some ''the file'') [tracker_json (example_tracker ''2'' ''MSFT'')] =
     ([tracker_json (example_tracker ''2'' ''MSFT'')], Some ''Invalid file'') \<and>
   handleImportFile (file_holds (JArr [JObj [(''id'', JStr ''1''), (''startPrice'', JNum 100)]]))
      example_translation (Some ''the file'') [tracker_json (example_tracker ''2'' ''MSFT'')] =
     ([tracker_json (example_tracker ''2'' ''MSFT'')], Some ''Invalid file'') \<and>
   handleImportFile file_is_no_json example_translation (Some ''the file'')
      [tracker_json (example_tracker ''2'' ''MSFT'')] =
     ([tracker_json (example_tracker ''2'' ''MSFT'')], Some ''Invalid file'')"
  using
    import_replaces_iff_valid [where JSON_parse = "file_holds (JArr [tracker_json (example_tracker ''1'' ''AAPL'')])"
      and content = "''the file''" and items = "[tracker_json (example_tracker ''1'' ''AAPL'')]"
      and t = example_translation and ?stocks0.0 = "[tracker_json (example_tracker ''2'' ''MSFT'')]"]
    import_replaces_iff_valid [where JSON_parse = "file_holds (JObj [(''id'', JStr ''1''), (''symbol'', JStr ''AAPL''), (''startPrice'', JNum 100)])"
      and content = "''the file''" and items = "[]"
      and t = example_translation and ?stocks0.0 = "[tracker_json (example_tracker ''2'' ''MSFT'')]"]
    import_replaces_iff_valid [where JSON_parse = "file_holds (JArr [JObj [(''id'', JStr ''1''), (''startPrice'', JNum 100)]])"
      and content = "''the file''" and items = "[]"
      and t = example_translation and ?stocks0.0 = "[tracker_json (example_tracker ''2'' ''MSFT'')]"]
    import_replaces_iff_valid [where JSON_parse = file_is_no_json
      and content = "''the file''" and items = "[]"
      and t = example_translation and ?stocks0.0 = "[tracker_json (example_tracker ''2'' ''MSFT'')]"]
  by (simp add: file_holds_def file_is_no_json_def example_translation_def importable_element_def
      has_nonempty_def has_defined_def tracker_json_def example_tracker_def optional_property_def
      nullable_def)


section \<open>The invariant of the tracker list\<close>

lemma tracker_ok_merge_update: "tracker_ok s \<Longrightarrow> tracker_ok (merge_update symbols results now s)"
  by (simp add: tracker_ok_def merge_update_def split: option.splits)

lemma tracker_ok_merge_failure: "tracker_ok s \<Longrightarrow> tracker_ok (merge_failure symbols now s)"
  by (simp add: tracker_ok_def merge_failure_def)

lemma invariant_refreshPrices:
  "invariant (stocks st) \<Longrightarrow> invariant (stocks (refreshPrices env gen parse t now apiKey subset' stocks0 st))"
  by (auto simp: invariant_def refreshPrices_def Let_def list_all_iff
      tracker_ok_merge_update tracker_ok_merge_failure split: sum.splits)

lemma import_result_cases:
  "fst (handleImportFile JSON_parse t file js) = js \<or>
   (\<exists>content. file = Some content \<and> JSON_parse content = Some (JArr (fst (handleImportFile JSON_parse t file js))))"
  by (auto simp: handleImportFile_def split: option.splits json.splits sum.splits)

text \<open>
  Claim C6, as stated, fails for the import: the validation looks at \<open>id\<close>, \<open>symbol\<close>
  and \<open>startPrice\<close> only, so a file may bring in a tracker with \<open>lastUpdated\<close> set,
  no \<open>currentPrice\<close> and no \<open>errorMessage\<close>. The empty list satisfies the invariant;
  after the import of the file below the list is that one tracker, and does not.
\<close>

theorem import_breaks_invariant_counterexample:
  "invariant [] \<and>
   handleImportFile (file_holds (JArr [tracker_json ((example_tracker ''1'' ''AAPL'')\<lparr>lastUpdated := Some 5\<rparr>)]))
      example_translation (Some ''the file'') (map tracker_json []) =
     (map tracker_json [(example_tracker ''1'' ''AAPL'')\<lparr>lastUpdated := Some 5\<rparr>], Some ''Import successful'') \<and>
   \<not> invariant [(example_tracker ''1'' ''AAPL'')\<lparr>lastUpdated := Some 5\<rparr>]"
  by (simp add: invariant_def tracker_ok_def handleImportFile_def file_holds_def looks_like_tracker_def
      tracker_json_def example_tracker_def example_translation_def optional_property_def nullable_def)

text \<open>
  Claim C6, amended. A tracker made by the form satisfies the invariant, and adding a
  tracker that satisfies it, the reconciliation merge (whatever the ingestion does),
  the completion toggle and the deletion preserve the invariant of the list. The
  import preserves it when the trackers of the file satisfy it: the list after an
  import is the list before or the array of the file.
\<close>

theorem invariant_preserved:
  "(handleSubmit uuid symbolText startPriceText targetPriceText = Added newTracker \<longrightarrow> tracker_ok newTracker) \<and>
   (invariant (stocks st) \<and> tracker_ok newStock \<longrightarrow>
      invariant (stocks (handleAddStock env gen parse t now apiKey newStock st))) \<and>
   (invariant (stocks st) \<longrightarrow>
      invariant (stocks (refreshPrices env gen parse t now apiKey subset' stocks0 st))) \<and>
   (invariant (stocks st) \<longrightarrow> invariant (stocks (handleToggleComplete i st))) \<and>
   (invariant (stocks st) \<longrightarrow> invariant (stocks (handleDeleteStock i st))) \<and>
   (invariant old \<and> file = Some content \<and> JSON_parse content = Some (JArr (map tracker_json new)) \<and>
    invariant new \<longrightarrow>
      (\<exists>ts. fst (handleImportFile JSON_parse t file (map tracker_json old)) = map tracker_json ts \<and>
            invariant ts)) \<and>
   (fst (handleImportFile JSON_parse t file js) = js \<or>
    (\<exists>content'. file = Some content' \<and>
       JSON_parse content' = Some (JArr (fst (handleImportFile JSON_parse t file js)))))"
proof (intro conjI impI)
  assume "handleSubmit uuid symbolText startPriceText targetPriceText = Added newTracker"
  then show "tracker_ok newTracker"
    by (auto simp: handleSubmit_def tracker_ok_def split: if_splits option.splits)
next
  assume "invariant (stocks st) \<and> tracker_ok newStock"
  then have "invariant (stocks (st\<lparr>stocks := newStock # stocks st\<rparr>))"
    by (simp add: invariant_def)
  then show "invariant (stocks (handleAddStock env gen parse t now apiKey newStock st))"
    unfolding handleAddStock_def by (rule invariant_refreshPrices)
next
  assume "invariant (stocks st)"
  then show "invariant (stocks (refreshPrices env gen parse t now apiKey subset' stocks0 st))"
    by (rule invariant_refreshPrices)
next
  assume "invariant (stocks st)"
  then show "invariant (stocks (handleToggleComplete i st))"
    by (auto simp: invariant_def handleToggleComplete_def list_all_iff tracker_ok_def)
next
  assume "invariant (stocks st)"
  then show "invariant (stocks (handleDeleteStock i st))"
    by (auto simp: invariant_def handleDeleteStock_def list_all_iff)
next
  assume h: "invariant old \<and> file = Some content \<and>
    JSON_parse content = Some (JArr (map tracker_json new)) \<and> invariant new"
  then have "fst (handleImportFile JSON_parse t file (map tracker_json old)) = map tracker_json old \<or>
             fst (handleImportFile JSON_parse t file (map tracker_json old)) = map tracker_json new"
    using import_result_cases [of JSON_parse t "file" "map tracker_json old"] by auto
  then show "\<exists>ts. fst (handleImportFile JSON_parse t file (map tracker_json old)) = map tracker_json ts \<and>
            invariant ts"
    using h by auto
next
  show "fst (handleImportFile JSON_parse t file js) = js \<or>
    (\<exists>content'. file = Some content' \<and>
       JSON_parse content' = Some (JArr (fst (handleImportFile JSON_parse t file js))))"
    by (rule import_result_cases)
qed

theorem invariant_preserved_witness:
  "tracker_ok \<lparr>id' = ''u-1'', symbol = ''AAPL'', companyName = None, startPrice = 100, targetPrice = 200,
      currentPrice = None, lastUpdated = None, sourceUrl = None, sourceTitle = None,
      isCompleted = None, errorMessage = None\<rparr> \<and>
   invariant (stocks (handleAddStock example_env (answering ''{}'') (parses_aapl 150) example_translation 1000 ''k''
      (example_tracker ''1'' ''AAPL'') (example_app []))) \<and>
   invariant (stocks (refreshPrices example_env failing parses_nothing example_translation 1000 ''k'' None
      [example_tracker ''1'' ''AAPL''] (example_app [example_tracker ''1'' ''AAPL'']))) \<and>
   invariant (stocks (handleToggleComplete ''1'' (example_app [example_tracker ''1'' ''AAPL'']))) \<and>
   invariant (stocks (handleDeleteStock ''1'' (example_app [example_tracker ''1'' ''AAPL'']))) \<and>
   (\<exists>ts. fst (handleImportFile (file_holds (JArr (map tracker_json [example_tracker ''1'' ''AAPL''])))
             example_translation (Some ''the file'') (map tracker_json [])) = map tracker_json ts \<and>
         invariant ts)"
  using
    invariant_preserved [where uuid = "''u-1''" and symbolText = "''aapl''" and startPriceText = "''100''"
      and targetPriceText = "''200''"
      and newTracker = "\<lparr>id' = ''u-1'', symbol = ''AAPL'', companyName = None, startPrice = 100,
        targetPrice = 200, currentPrice = None, lastUpdated = None, sourceUrl = None, sourceTitle = None,
        isCompleted = None, errorMessage = None\<rparr>"
      and st = "example_app []" and newStock = "example_tracker ''1'' ''AAPL''" and env = example_env
      and gen = "answering ''{}''" and parse = "parses_aapl 150" and t = example_translation and now = 1000
      and apiKey = "''k''" and ?file = "Some ''the file''" and content = "''the file''"
      and JSON_parse = "file_holds (JArr (map tracker_json [example_tracker ''1'' ''AAPL'']))"
      and new = "[example_tracker ''1'' ''AAPL'']" and old = "[]"]
    invariant_preserved [where st = "example_app [example_tracker ''1'' ''AAPL'']" and env = example_env
      and gen = failing and parse = parses_nothing and t = example_translation and now = 1000
      and apiKey = "''k''" and subset' = None and ?stocks0.0 = "[example_tracker ''1'' ''AAPL'']"
      and i = "''1''"]
  by (simp add: handleSubmit_def parseFloat_def is_space_def is_digit_def char_between_def digits_value_def
      exponent_part_def scale10_def toUpperCase_def upper_char_def is_lower_def
      example_app_def example_tracker_def invariant_def tracker_ok_def file_holds_def)


section \<open>Fallback extraction\<close>

subsection \<open>Characters\<close>

lemma char_eq_code: "c = d \<longleftrightarrow> (of_char c :: nat) = of_char d"
  by simp

lemma of_char_upper:
  "(of_char (upper_char c) :: nat) = (if is_lower c then of_char c - 32 else of_char c)"
proof (cases "is_lower c")
  case True
  then have "(of_char c :: nat) - 32 < 256"
    unfolding is_lower_def char_between_def by auto
  then show ?thesis using True by (simp add: upper_char_def)
qed (simp add: upper_char_def)

lemma of_char_lower:
  "(of_char (lower_char c) :: nat) = (if is_upper c then of_char c + 32 else of_char c)"
proof (cases "is_upper c")
  case True
  then have "(of_char c :: nat) + 32 < 256"
    unfolding is_upper_def char_between_def by auto
  then show ?thesis using True by (simp add: lower_char_def)
qed (simp add: lower_char_def)

lemma in_ranges_single [simp]: "in_ranges [(a, a)] c \<longleftrightarrow> c = a"
  by (auto simp: in_ranges_def char_between_def)

lemma literal_match_iff: "cset_match True (literal a) c \<longleftrightarrow> upper_char c = upper_char a"
proof -
  have "cset_match True (literal a) c \<longleftrightarrow> c = a \<or> upper_char c = a \<or> lower_char c = a"
    by (simp add: literal_def)
  also have "\<dots> \<longleftrightarrow> upper_char c = upper_char a"
    unfolding char_eq_code [of c a] char_eq_code [of "upper_char c"] char_eq_code [of "lower_char c"]
      of_char_upper of_char_lower is_lower_def is_upper_def char_between_def
    by (auto simp del: of_char_eq_iff split: if_splits)
  finally show ?thesis .
qed

lemma space_match_iff: "cset_match True white_space c \<longleftrightarrow> is_space c"
proof -
  have "cset_match True white_space c \<longleftrightarrow>
          is_space c \<or> is_space (upper_char c) \<or> is_space (lower_char c)"
    by (auto simp: white_space_def in_ranges_def is_space_def char_between_def char_eq_code)
  also have "\<dots> \<longleftrightarrow> is_space c"
    unfolding is_space_def char_between_def char_eq_code [of _ "CHR 0x20"]
      of_char_upper of_char_lower is_lower_def is_upper_def
    by (auto simp del: of_char_eq_iff split: if_splits)
  finally show ?thesis .
qed

lemma number_match_iff:
  "cset_match True (CSet False [(CHR ''0'', CHR ''9''), (CHR ''.'', CHR ''.'')]) c \<longleftrightarrow> number_char c"
proof -
  have "cset_match True (CSet False [(CHR ''0'', CHR ''9''), (CHR ''.'', CHR ''.'')]) c \<longleftrightarrow>
          number_char c \<or> number_char (upper_char c) \<or> number_char (lower_char c)"
    by (auto simp: in_ranges_def number_char_def is_digit_def char_between_def char_eq_code)
  also have "\<dots> \<longleftrightarrow> number_char c"
    unfolding number_char_def is_digit_def char_between_def char_eq_code [of _ "CHR ''.''"]
      of_char_upper of_char_lower is_lower_def is_upper_def
    by (auto simp del: of_char_eq_iff split: if_splits)
  finally show ?thesis .
qed

lemma not_char_match_iff:
  "cset_match True (CSet True [(a, a)]) c \<longleftrightarrow> upper_char c \<noteq> upper_char a"
  using literal_match_iff [of a c] by (simp add: literal_def)

lemma upper_brace [simp]: "upper_char c = CHR ''}'' \<longleftrightarrow> c = CHR ''}''"
  unfolding char_eq_code [of _ "CHR ''}''"] of_char_upper is_lower_def char_between_def
  by (auto simp del: of_char_eq_iff split: if_splits)

lemma upper_quote [simp]: "upper_char c = dquote \<longleftrightarrow> c = dquote"
  unfolding char_eq_code [of _ "dquote"] of_char_upper is_lower_def char_between_def
  by (auto simp del: of_char_eq_iff split: if_splits)

subsection \<open>The patterns of an escaped symbol\<close>

lemma foldr_cons_tok: "foldr cons_tok xs (Compiled ys) = Compiled (xs @ ys)"
  by (induction xs) auto

lemma special_is_syntax: "regex_special c \<Longrightarrow> syntax_character c \<and> c \<noteq> CHR ''s''"
  by (auto simp: regex_special_def syntax_character_def)

lemma tokenize_plain:
  "\<not> regex_special c \<Longrightarrow> tokenize (c # cs) = cons_tok (TAtom (literal c)) (tokenize cs)"
  by (simp add: regex_special_def)

lemma tokenize_escape:
  "regex_special c \<Longrightarrow> tokenize (backslash # c # cs) = cons_tok (TAtom (literal c)) (tokenize cs)"
  using special_is_syntax [of c] by simp

lemma tokenize_escaped:
  "tokenize (escapeRegExp s @ rest) = foldr cons_tok (map (\<lambda>c. TAtom (literal c)) s) (tokenize rest)"
proof (induction s)
  case Nil
  then show ?case by (simp add: escapeRegExp_def)
next
  case (Cons c s)
  have step: "escapeRegExp (c # s) = (if regex_special c then [backslash, c] else [c]) @ escapeRegExp s"
    by (simp add: escapeRegExp_def)
  show ?case
  proof (cases "regex_special c")
    case True
    then show ?thesis
      using Cons tokenize_escape [OF True] by (simp add: step)
  next
    case False
    then show ?thesis
      using Cons tokenize_plain [OF False] by (simp add: step)
  qed
qed

lemma parse_literals:
  "parse_nodes g (map (\<lambda>c. TAtom (literal c)) s @ TAtom cs # ts) =
     foldr cons_tok (literals s) (parse_nodes g (TAtom cs # ts))"
proof (induction s)
  case Nil
  then show ?case by (simp add: literals_def)
next
  case (Cons c s)
  then show ?case by (cases s) (simp_all add: literals_def)
qed

lemma price_suffix_tokens:
  \<open>tokenize price_suffix =
   Compiled [TAtom (literal dquote), TAtom white_space, TStar, TAtom (literal (CHR '':'')), TAtom white_space, TStar,
     TAtom (literal (CHR ''{'')), TAtom not_brace, TStar,
     TAtom (literal dquote), TAtom (literal (CHR ''p'')), TAtom (literal (CHR ''r'')), TAtom (literal (CHR ''i'')),
     TAtom (literal (CHR ''c'')), TAtom (literal (CHR ''e'')), TAtom (literal dquote),
     TAtom white_space, TStar, TAtom (literal (CHR '':'')), TAtom white_space, TStar,
     TOpen, TAtom number_chars, TPlus, TClose, TAtom not_brace, TStar, TAtom (literal (CHR ''}''))]\<close>
  by (simp add: price_suffix_def syntax_character_def braced_quantifier_def is_digit_def char_between_def
      not_brace_def number_chars_def)

lemma name_suffix_tokens:
  \<open>tokenize name_suffix =
   Compiled [TAtom (literal dquote), TAtom white_space, TStar, TAtom (literal (CHR '':'')), TAtom white_space, TStar,
     TAtom (literal (CHR ''{'')), TAtom not_brace, TStar,
     TAtom (literal dquote), TAtom (literal (CHR ''n'')), TAtom (literal (CHR ''a'')), TAtom (literal (CHR ''m'')),
     TAtom (literal (CHR ''e'')), TAtom (literal dquote),
     TAtom white_space, TStar, TAtom (literal (CHR '':'')), TAtom white_space, TStar,
     TAtom (literal dquote), TOpen, TAtom not_quote, TPlus, TClose, TAtom (literal dquote)]\<close>
  by (simp add: name_suffix_def syntax_character_def braced_quantifier_def is_digit_def char_between_def
      not_brace_def not_quote_def)

lemma tokenize_pattern:
  assumes "tokenize sfx = Compiled (TAtom cs # ts)"
  shows "tokenize (dquote # escapeRegExp s @ sfx) =
           Compiled (map (\<lambda>c. TAtom (literal c)) (dquote # s) @ TAtom cs # ts)"
  using assms by (simp add: tokenize_plain regex_special_def tokenize_escaped foldr_cons_tok)

lemma new_RegExp_pattern:
  assumes "tokenize sfx = Compiled (TAtom cs # ts)"
    and "parse_nodes False (TAtom cs # ts) = Compiled ns"
  shows "new_RegExp (dquote # escapeRegExp s @ sfx) ''i'' = Compiled (RegExp (literals (dquote # s) @ ns) True)"
proof -
  have "parse_nodes False (map (\<lambda>c. TAtom (literal c)) (dquote # s) @ TAtom cs # ts) =
          Compiled (literals (dquote # s) @ ns)"
    unfolding parse_literals assms(2) foldr_cons_tok ..
  then show ?thesis
    unfolding new_RegExp_def tokenize_pattern [OF assms(1)] by simp
qed

lemma price_regexp:
  "new_RegExp (price_pattern (escapeRegExp s)) ''i'' = Compiled (RegExp (key_nodes s ''price'' @ price_tail) True)"
proof -
  have "price_pattern (escapeRegExp s) = dquote # escapeRegExp s @ price_suffix"
    by (simp add: price_pattern_def price_suffix_def)
  then show ?thesis
    using new_RegExp_pattern [OF price_suffix_tokens, of _ s]
    by (simp add: repeats_def lazy_mark_def key_nodes_def price_tail_def literals_def)
qed

lemma name_regexp:
  "new_RegExp (name_pattern (escapeRegExp s)) ''i'' = Compiled (RegExp (key_nodes s ''name'' @ name_tail) True)"
proof -
  have "name_pattern (escapeRegExp s) = dquote # escapeRegExp s @ name_suffix"
    by (simp add: name_pattern_def name_suffix_def)
  then show ?thesis
    using new_RegExp_pattern [OF name_suffix_tokens, of _ s]
    by (simp add: repeats_def lazy_mark_def key_nodes_def name_tail_def literals_def)
qed

subsection \<open>The matcher and the texts it accepts\<close>

lemma star_sound:
  "match_here ic (Atom cs Star # ns) s None caps = Some res \<Longrightarrow>
   \<exists>u r. s = u @ r \<and> (\<forall>c\<in>set u. cset_match ic cs c) \<and> match_here ic ns r None caps = Some res"
proof (induction s)
  case Nil
  then show ?case by simp
next
  case (Cons c s)
  show ?case
  proof (cases "cset_match ic cs c \<and> match_here ic (Atom cs Star # ns) s None caps \<noteq> None")
    case True
    then have "match_here ic (Atom cs Star # ns) s None caps = Some res"
      using Cons.prems by auto
    then obtain u r where "s = u @ r" "\<forall>c\<in>set u. cset_match ic cs c"
        "match_here ic ns r None caps = Some res"
      using Cons.IH by blast
    then have "c # s = (c # u) @ r \<and> (\<forall>d\<in>set (c # u). cset_match ic cs d) \<and>
        match_here ic ns r None caps = Some res"
      using True by simp
    then show ?thesis by blast
  next
    case False
    then have "match_here ic ns (c # s) None caps = Some res"
      using Cons.prems by (auto split: if_splits option.splits)
    then have "c # s = [] @ (c # s) \<and> (\<forall>d\<in>set []. cset_match ic cs d) \<and>
        match_here ic ns (c # s) None caps = Some res"
      by simp
    then show ?thesis by blast
  qed
qed

lemma star_complete:
  "(\<forall>c\<in>set u. cset_match ic cs c) \<Longrightarrow> match_here ic ns r None caps \<noteq> None \<Longrightarrow>
   match_here ic (Atom cs Star # ns) (u @ r) None caps \<noteq> None"
proof (induction u)
  case Nil
  then show ?case by (cases r) (auto split: option.splits)
next
  case (Cons c u)
  then show ?case by (auto split: option.splits)
qed

lemma prefix_sound:
  "match_here ic (atoms ps @ ns) s None caps = Some res \<Longrightarrow>
   \<exists>w r. s = w @ r \<and> spells ic ps w \<and> match_here ic ns r None caps = Some res"
proof (induction ps arbitrary: s)
  case Nil
  then show ?case by (simp add: atoms_def)
next
  case (Cons p ps)
  obtain cs q where p: "p = (cs, q)" by (cases p)
  have IH: "\<And>t. match_here ic (atoms ps @ ns) t None caps = Some res \<Longrightarrow>
      \<exists>w r. t = w @ r \<and> spells ic ps w \<and> match_here ic ns r None caps = Some res"
    using Cons.IH by blast
  show ?case
  proof (cases q)
    case Once
    with Cons.prems p obtain c r where s: "s = c # r" and c: "cset_match ic cs c"
        and m: "match_here ic (atoms ps @ ns) r None caps = Some res"
      by (cases s) (auto simp: atoms_def split: if_splits)
    from IH [OF m] obtain w' r' where "r = w' @ r'" "spells ic ps w'"
        "match_here ic ns r' None caps = Some res"
      by blast
    then have "s = (c # w') @ r' \<and> spells ic (p # ps) (c # w') \<and>
        match_here ic ns r' None caps = Some res"
      using s c p Once by simp
    then show ?thesis by blast
  next
    case Star
    with Cons.prems p have "match_here ic (Atom cs Star # (atoms ps @ ns)) s None caps = Some res"
      by (simp add: atoms_def)
    from star_sound [OF this] obtain u r where s: "s = u @ r" and u: "\<forall>c\<in>set u. cset_match ic cs c"
        and m: "match_here ic (atoms ps @ ns) r None caps = Some res"
      by blast
    from IH [OF m] obtain w' r' where "r = w' @ r'" "spells ic ps w'"
        "match_here ic ns r' None caps = Some res"
      by blast
    then have "s = (u @ w') @ r' \<and> spells ic (p # ps) (u @ w') \<and>
        match_here ic ns r' None caps = Some res"
      using s u p Star by auto
    then show ?thesis by blast
  next
    case Plus
    with Cons.prems p obtain c t where s: "s = c # t" and c: "cset_match ic cs c"
        and "match_here ic (Atom cs Star # (atoms ps @ ns)) t None caps = Some res"
      by (cases s) (auto simp: atoms_def split: if_splits)
    from star_sound [OF this(3)] obtain u r where t: "t = u @ r" and u: "\<forall>c\<in>set u. cset_match ic cs c"
        and m: "match_here ic (atoms ps @ ns) r None caps = Some res"
      by blast
    from IH [OF m] obtain w' r' where "r = w' @ r'" "spells ic ps w'"
        "match_here ic ns r' None caps = Some res"
      by blast
    then have "s = (c # u @ w') @ r' \<and> spells ic (p # ps) (c # u @ w') \<and>
        match_here ic ns r' None caps = Some res"
      using s t c u p Plus by auto
    then show ?thesis by blast
  qed
qed

lemma prefix_complete:
  "spells ic ps w \<Longrightarrow> match_here ic ns r None caps \<noteq> None \<Longrightarrow>
   match_here ic (atoms ps @ ns) (w @ r) None caps \<noteq> None"
proof (induction ps arbitrary: w)
  case Nil
  then show ?case by (simp add: atoms_def)
next
  case (Cons p ps)
  obtain cs q where p: "p = (cs, q)" by (cases p)
  have IH: "\<And>v. spells ic ps v \<Longrightarrow> match_here ic (atoms ps @ ns) (v @ r) None caps \<noteq> None"
    using Cons.IH Cons.prems(2) by blast
  show ?case
  proof (cases q)
    case Once
    with Cons.prems(1) p obtain c v where "w = c # v" "cset_match ic cs c" "spells ic ps v"
      by auto
    then show ?thesis using IH [of v] p Once by (simp add: atoms_def)
  next
    case Star
    with Cons.prems(1) p obtain u v where w: "w = u @ v" and u: "\<forall>c\<in>set u. cset_match ic cs c"
        and v: "spells ic ps v"
      by auto
    have "match_here ic (Atom cs Star # (atoms ps @ ns)) (u @ (v @ r)) None caps \<noteq> None"
      using u IH [OF v] by (rule star_complete)
    then show ?thesis using w p Star by (simp add: atoms_def)
  next
    case Plus
    with Cons.prems(1) p obtain c u v where w: "w = c # u @ v" and c: "cset_match ic cs c"
        and u: "\<forall>d\<in>set u. cset_match ic cs d" and v: "spells ic ps v"
      by auto
    have "match_here ic (Atom cs Star # (atoms ps @ ns)) (u @ (v @ r)) None caps \<noteq> None"
      using u IH [OF v] by (rule star_complete)
    then show ?thesis using w c p Plus by (simp add: atoms_def)
  qed
qed

lemma search_sound:
  "search ic ns s = Some res \<Longrightarrow> \<exists>pre r. s = pre @ r \<and> match_here ic ns r None [] = Some res"
proof (induction s)
  case Nil
  then show ?case by simp
next
  case (Cons c s)
  show ?case
  proof (cases "match_here ic ns (c # s) None []")
    case None
    then have "search ic ns s = Some res"
      using Cons.prems by simp
    then obtain pre r where "s = pre @ r" "match_here ic ns r None [] = Some res"
      using Cons.IH by blast
    then have "c # s = (c # pre) @ r \<and> match_here ic ns r None [] = Some res"
      by simp
    then show ?thesis by blast
  next
    case (Some a)
    then have "c # s = [] @ (c # s) \<and> match_here ic ns (c # s) None [] = Some res"
      using Cons.prems by simp
    then show ?thesis by blast
  qed
qed

lemma search_complete:
  "match_here ic ns r None [] \<noteq> None \<Longrightarrow> search ic ns (pre @ r) \<noteq> None"
proof (induction pre)
  case Nil
  then show ?case by (cases r) auto
next
  case (Cons c pre)
  then show ?case by (auto split: option.splits)
qed

lemma upper_of_brace [simp]: "upper_char (CHR ''}'') = CHR ''}''"
  by (simp add: upper_char_def is_lower_def char_between_def)

lemma upper_of_quote [simp]: "upper_char dquote = dquote"
  by (simp add: upper_char_def is_lower_def char_between_def)

lemma not_brace_match [simp]: "cset_match True not_brace c \<longleftrightarrow> c \<noteq> CHR ''}''"
  using not_char_match_iff [of "CHR ''}''" c] by (simp add: not_brace_def)

lemma brace_match [simp]: "cset_match True (literal (CHR ''}'')) c \<longleftrightarrow> c = CHR ''}''"
  using literal_match_iff [of "CHR ''}''" c] by simp

lemma number_chars_match [simp]: "cset_match True number_chars c \<longleftrightarrow> number_char c"
  using number_match_iff [of c] by (simp add: number_chars_def)

lemma number_char_not_brace: "number_char c \<Longrightarrow> c \<noteq> CHR ''}''"
  by (auto simp: number_char_def is_digit_def char_between_def)

lemma brace_after_numbers:
  "CHR ''}'' \<in> set (dropWhile number_char s) \<longleftrightarrow> CHR ''}'' \<in> set s"
  by (induction s) (auto dest: number_char_not_brace)

lemma closing_brace:
  "match_here True [Atom not_brace Star, Atom (literal (CHR ''}'')) Once] s cur caps =
     (if CHR ''}'' \<in> set s then Some caps else None)"
  by (induction s arbitrary: cur) auto

lemma number_run:
  "match_here True (Atom number_chars Star # GroupClose # [Atom not_brace Star, Atom (literal (CHR ''}'')) Once])
      s (Some acc) caps =
     (if CHR ''}'' \<in> set s then Some (caps @ [acc @ takeWhile number_char s]) else None)"
proof (induction s arbitrary: acc)
  case Nil
  then show ?case by (simp add: closing_brace)
next
  case (Cons c s)
  then show ?case
    by (auto simp: closing_brace dest: number_char_not_brace)
qed

lemma price_tail_match:
  "match_here True price_tail s cur caps =
     (if takeWhile number_char s \<noteq> [] \<and> CHR ''}'' \<in> set s
      then Some (caps @ [takeWhile number_char s]) else None)"
proof (cases s)
  case Nil
  then show ?thesis by (simp add: price_tail_def)
next
  case (Cons c r)
  then show ?thesis
    by (auto simp: price_tail_def number_run dest: number_char_not_brace)
qed

lemma spells_append:
  "spells ic (a @ b) w \<longleftrightarrow> (\<exists>u v. w = u @ v \<and> spells ic a u \<and> spells ic b v)"
proof (induction a arbitrary: w)
  case Nil
  then show ?case by simp
next
  case (Cons p a)
  obtain cs q where p: "p = (cs, q)" by (cases p)
  show ?case
  proof (cases q)
    case Once
    show ?thesis
    proof
      assume "spells ic ((p # a) @ b) w"
      then obtain c r where "w = c # r" "cset_match ic cs c" "spells ic (a @ b) r"
        using p Once by auto
      then obtain u v where "r = u @ v" "spells ic a u" "spells ic b v"
        using Cons.IH by blast
      then have "w = (c # u) @ v \<and> spells ic (p # a) (c # u) \<and> spells ic b v"
        using \<open>w = c # r\<close> \<open>cset_match ic cs c\<close> p Once by simp
      then show "\<exists>u v. w = u @ v \<and> spells ic (p # a) u \<and> spells ic b v" by blast
    next
      assume "\<exists>u v. w = u @ v \<and> spells ic (p # a) u \<and> spells ic b v"
      then obtain u v where w: "w = u @ v" and u: "spells ic (p # a) u" and v: "spells ic b v"
        by blast
      from u obtain c r where "u = c # r" "cset_match ic cs c" "spells ic a r"
        using p Once by auto
      then show "spells ic ((p # a) @ b) w"
        using w v Cons.IH [of "r @ v"] p Once by auto
    qed
  next
    case Star
    show ?thesis
    proof
      assume "spells ic ((p # a) @ b) w"
      then obtain x r where "w = x @ r" "\<forall>c\<in>set x. cset_match ic cs c" "spells ic (a @ b) r"
        using p Star by auto
      then obtain u v where "r = u @ v" "spells ic a u" "spells ic b v"
        using Cons.IH by blast
      then have "w = (x @ u) @ v \<and> spells ic (p # a) (x @ u) \<and> spells ic b v"
        using \<open>w = x @ r\<close> \<open>\<forall>c\<in>set x. cset_match ic cs c\<close> p Star by auto
      then show "\<exists>u v. w = u @ v \<and> spells ic (p # a) u \<and> spells ic b v" by blast
    next
      assume "\<exists>u v. w = u @ v \<and> spells ic (p # a) u \<and> spells ic b v"
      then obtain u v where w: "w = u @ v" and u: "spells ic (p # a) u" and v: "spells ic b v"
        by blast
      from u obtain x r where "u = x @ r" "\<forall>c\<in>set x. cset_match ic cs c" "spells ic a r"
        using p Star by auto
      then have "w = x @ (r @ v) \<and> (\<forall>c\<in>set x. cset_match ic cs c) \<and> spells ic (a @ b) (r @ v)"
        using w v Cons.IH [of "r @ v"] by auto
      then show "spells ic ((p # a) @ b) w"
        using p Star by auto
    qed
  next
    case Plus
    show ?thesis
    proof
      assume "spells ic ((p # a) @ b) w"
      then obtain c x r where "w = c # x @ r" "cset_match ic cs c" "\<forall>c\<in>set x. cset_match ic cs c"
          "spells ic (a @ b) r"
        using p Plus by auto
      then obtain u v where "r = u @ v" "spells ic a u" "spells ic b v"
        using Cons.IH by blast
      then have "w = (c # x @ u) @ v \<and> spells ic (p # a) (c # x @ u) \<and> spells ic b v"
        using \<open>w = c # x @ r\<close> \<open>cset_match ic cs c\<close> \<open>\<forall>c\<in>set x. cset_match ic cs c\<close> p Plus by auto
      then show "\<exists>u v. w = u @ v \<and> spells ic (p # a) u \<and> spells ic b v" by blast
    next
      assume "\<exists>u v. w = u @ v \<and> spells ic (p # a) u \<and> spells ic b v"
      then obtain u v where w: "w = u @ v" and u: "spells ic (p # a) u" and v: "spells ic b v"
        by blast
      from u obtain c x r where "u = c # x @ r" "cset_match ic cs c" "\<forall>c\<in>set x. cset_match ic cs c"
          "spells ic a r"
        using p Plus by auto
      then have "w = c # x @ (r @ v) \<and> cset_match ic cs c \<and> (\<forall>c\<in>set x. cset_match ic cs c) \<and>
          spells ic (a @ b) (r @ v)"
        using w v Cons.IH [of "r @ v"] by auto
      then show "spells ic ((p # a) @ b) w"
        using p Plus by auto
    qed
  qed
qed

lemma spells_lits: "spells True (lits l) w \<longleftrightarrow> same_ignoring_case w l"
proof (induction l arbitrary: w)
  case Nil
  then show ?case by (simp add: lits_def same_ignoring_case_def)
next
  case (Cons a l)
  have "spells True (lits (a # l)) w \<longleftrightarrow> (\<exists>c r. w = c # r \<and> upper_char c = upper_char a \<and> spells True (lits l) r)"
    by (simp add: lits_def literal_match_iff)
  also have "\<dots> \<longleftrightarrow> same_ignoring_case w (a # l)"
    using Cons by (cases w) (auto simp: same_ignoring_case_def)
  finally show ?case .
qed

lemma spells_star: "spells ic [(cs, Star)] w \<longleftrightarrow> (\<forall>c\<in>set w. cset_match ic cs c)"
  by simp

lemma spells_once: "spells ic [(cs, Once)] w \<longleftrightarrow> (\<exists>c. w = [c] \<and> cset_match ic cs c)"
  by auto

lemma key_nodes_atoms: "key_nodes s key = atoms (key_atoms s key)"
  by (simp add: key_nodes_def key_atoms_def atoms_def lits_def literals_def)

lemma plain_literal_match:
  "\<not> is_lower a \<Longrightarrow> \<not> is_upper a \<Longrightarrow> cset_match True (literal a) c \<longleftrightarrow> c = a"
  unfolding literal_match_iff char_eq_code [of "upper_char c"] char_eq_code [of c a]
    of_char_upper is_lower_def is_upper_def char_between_def
  by (auto simp del: of_char_eq_iff split: if_splits)

lemma colon_match [simp]: "cset_match True (literal (CHR '':'')) c \<longleftrightarrow> c = CHR '':''"
  by (rule plain_literal_match) (simp_all add: is_lower_def is_upper_def char_between_def)

lemma open_brace_match [simp]: "cset_match True (literal (CHR ''{'')) c \<longleftrightarrow> c = CHR ''{''"
  by (rule plain_literal_match) (simp_all add: is_lower_def is_upper_def char_between_def)

lemma quote_match [simp]: "cset_match True (literal dquote) c \<longleftrightarrow> c = dquote"
  by (rule plain_literal_match) (simp_all add: is_lower_def is_upper_def char_between_def)

lemma spells_quote [simp]: \<open>spells True (lits ''"'') w \<longleftrightarrow> w = ''"''\<close>
  by (auto simp: lits_def)

lemma same_quote [simp]: \<open>same_ignoring_case u ''"'' \<longleftrightarrow> u = ''"''\<close>
  by (cases u) (auto simp: same_ignoring_case_def)

lemma spells_appendI: "spells ic a u \<Longrightarrow> spells ic b v \<Longrightarrow> spells ic (a @ b) (u @ v)"
  unfolding spells_append by blast

lemma spells_quoted:
  \<open>spells True (lits ''"'' @ lits k @ lits ''"'') u \<longleftrightarrow> (\<exists>s. u = ''"'' @ s @ ''"'' \<and> same_ignoring_case s k)\<close>
  unfolding spells_append spells_lits by (simp; blast)

lemma spells_colon:
  \<open>spells True [(white_space, Star), (literal (CHR '':''), Once), (white_space, Star)] u \<longleftrightarrow>
     (\<exists>w1 w2. u = w1 @ '':'' @ w2 \<and> (\<forall>c\<in>set (w1 @ w2). is_space c))\<close>
  by (simp add: space_match_iff; blast)

lemma spells_open:
  \<open>spells True [(literal (CHR ''{''), Once), (not_brace, Star)] u \<longleftrightarrow>
     (\<exists>b1. u = ''{'' @ b1 \<and> CHR ''}'' \<notin> set b1)\<close>
  by (simp; blast)

lemma key_atoms_segments:
  \<open>key_atoms sym' key =
     (lits ''"'' @ lits sym' @ lits ''"'') @
     [(white_space, Star), (literal (CHR '':''), Once), (white_space, Star)] @
     [(literal (CHR ''{''), Once), (not_brace, Star)] @
     (lits ''"'' @ lits key @ lits ''"'') @
     [(white_space, Star), (literal (CHR '':''), Once), (white_space, Star)]\<close>
  by (simp add: key_atoms_def)

lemma spells_key:
  \<open>spells True (key_atoms sym' key) w \<longleftrightarrow>
     (\<exists>s k w1 w2 b1 w3 w4.
        w = ''"'' @ s @ ''"'' @ w1 @ '':'' @ w2 @ ''{'' @ b1 @ ''"'' @ k @ ''"'' @ w3 @ '':'' @ w4 \<and>
        same_ignoring_case s sym' \<and> same_ignoring_case k key \<and>
        (\<forall>c\<in>set (w1 @ w2 @ w3 @ w4). is_space c) \<and> CHR ''}'' \<notin> set b1)\<close>
proof
  assume "spells True (key_atoms sym' key) w"
  then obtain u1 u2 u3 u4 u5 where w: "w = u1 @ u2 @ u3 @ u4 @ u5"
      and 1: \<open>spells True (lits ''"'' @ lits sym' @ lits ''"'') u1\<close>
      and 2: \<open>spells True [(white_space, Star), (literal (CHR '':''), Once), (white_space, Star)] u2\<close>
      and 3: \<open>spells True [(literal (CHR ''{''), Once), (not_brace, Star)] u3\<close>
      and 4: \<open>spells True (lits ''"'' @ lits key @ lits ''"'') u4\<close>
      and 5: \<open>spells True [(white_space, Star), (literal (CHR '':''), Once), (white_space, Star)] u5\<close>
    unfolding key_atoms_segments spells_append [of True "_ @ _ @ _"] spells_append [of True "[_, _, _]"]
      spells_append [of True "[_, _]"]
    by blast
  from 1 obtain s where s: \<open>u1 = ''"'' @ s @ ''"''\<close> "same_ignoring_case s sym'"
    unfolding spells_quoted by blast
  from 2 obtain w1 w2 where w12: \<open>u2 = w1 @ '':'' @ w2\<close> "\<forall>c\<in>set (w1 @ w2). is_space c"
    unfolding spells_colon by blast
  from 3 obtain b1 where b1: \<open>u3 = ''{'' @ b1\<close> "CHR ''}'' \<notin> set b1"
    unfolding spells_open by blast
  from 4 obtain k where k: \<open>u4 = ''"'' @ k @ ''"''\<close> "same_ignoring_case k key"
    unfolding spells_quoted by blast
  from 5 obtain w3 w4 where w34: \<open>u5 = w3 @ '':'' @ w4\<close> "\<forall>c\<in>set (w3 @ w4). is_space c"
    unfolding spells_colon by blast
  have \<open>w = ''"'' @ s @ ''"'' @ w1 @ '':'' @ w2 @ ''{'' @ b1 @ ''"'' @ k @ ''"'' @ w3 @ '':'' @ w4 \<and>
        same_ignoring_case s sym' \<and> same_ignoring_case k key \<and>
        (\<forall>c\<in>set (w1 @ w2 @ w3 @ w4). is_space c) \<and> CHR ''}'' \<notin> set b1\<close>
    using w s w12 b1 k w34 by auto
  then show \<open>\<exists>s k w1 w2 b1 w3 w4.
        w = ''"'' @ s @ ''"'' @ w1 @ '':'' @ w2 @ ''{'' @ b1 @ ''"'' @ k @ ''"'' @ w3 @ '':'' @ w4 \<and>
        same_ignoring_case s sym' \<and> same_ignoring_case k key \<and>
        (\<forall>c\<in>set (w1 @ w2 @ w3 @ w4). is_space c) \<and> CHR ''}'' \<notin> set b1\<close>
    by blast
next
  assume \<open>\<exists>s k w1 w2 b1 w3 w4.
        w = ''"'' @ s @ ''"'' @ w1 @ '':'' @ w2 @ ''{'' @ b1 @ ''"'' @ k @ ''"'' @ w3 @ '':'' @ w4 \<and>
        same_ignoring_case s sym' \<and> same_ignoring_case k key \<and>
        (\<forall>c\<in>set (w1 @ w2 @ w3 @ w4). is_space c) \<and> CHR ''}'' \<notin> set b1\<close>
  then obtain s k w1 w2 b1 w3 w4 where
      w: \<open>w = ''"'' @ s @ ''"'' @ w1 @ '':'' @ w2 @ ''{'' @ b1 @ ''"'' @ k @ ''"'' @ w3 @ '':'' @ w4\<close>
      and s: "same_ignoring_case s sym'" and k: "same_ignoring_case k key"
      and sp: "\<forall>c\<in>set (w1 @ w2 @ w3 @ w4). is_space c" and b1: "CHR ''}'' \<notin> set b1"
    by blast
  have 1: \<open>spells True (lits ''"'' @ lits sym' @ lits ''"'') (''"'' @ s @ ''"'')\<close>
    unfolding spells_quoted using s by blast
  have 2: \<open>spells True [(white_space, Star), (literal (CHR '':''), Once), (white_space, Star)] (w1 @ '':'' @ w2)\<close>
    unfolding spells_colon using sp by auto
  have 3: \<open>spells True [(literal (CHR ''{''), Once), (not_brace, Star)] (''{'' @ b1)\<close>
    unfolding spells_open using b1 by blast
  have 4: \<open>spells True (lits ''"'' @ lits key @ lits ''"'') (''"'' @ k @ ''"'')\<close>
    unfolding spells_quoted using k by blast
  have 5: \<open>spells True [(white_space, Star), (literal (CHR '':''), Once), (white_space, Star)] (w3 @ '':'' @ w4)\<close>
    unfolding spells_colon using sp by auto
  have \<open>spells True (key_atoms sym' key)
          ((''"'' @ s @ ''"'') @ (w1 @ '':'' @ w2) @ (''{'' @ b1) @ (''"'' @ k @ ''"'') @ (w3 @ '':'' @ w4))\<close>
    unfolding key_atoms_segments by (intro spells_appendI 1 2 3 4 5)
  then show "spells True (key_atoms sym' key) w"
    using w by simp
qed

subsection \<open>The price pattern and recognizable fragments\<close>

lemma price_match_sound:
  assumes "match_here True (key_nodes sym' ''price'' @ price_tail) rest None [] = Some res"
  shows "\<exists>num. res = [num] \<and> price_fragment sym' num rest"
proof -
  from assms obtain w r where rest: "rest = w @ r" and w: "spells True (key_atoms sym' ''price'') w"
      and tail: "match_here True price_tail r None [] = Some res"
    unfolding key_nodes_atoms using prefix_sound by blast
  define num where "num = takeWhile number_char r"
  define r' where "r' = dropWhile number_char r"
  define b2 where "b2 = takeWhile (\<lambda>c. c \<noteq> CHR ''}'') r'"
  define post where "post = tl (dropWhile (\<lambda>c. c \<noteq> CHR ''}'') r')"
  from tail have num: "num \<noteq> []" and brace: "CHR ''}'' \<in> set r" and res: "res = [num]"
    by (auto simp: price_tail_match num_def split: if_splits)
  have "CHR ''}'' \<in> set r'"
    using brace by (simp add: r'_def brace_after_numbers)
  then obtain a t where dw: "dropWhile (\<lambda>c. c \<noteq> CHR ''}'') r' = a # t"
    by (cases "dropWhile (\<lambda>c. c \<noteq> CHR ''}'') r'") (auto simp: dropWhile_eq_Nil_conv)
  moreover have "a = CHR ''}''"
    using hd_dropWhile [of "\<lambda>c. c \<noteq> CHR ''}''" r'] dw by simp
  ultimately have "dropWhile (\<lambda>c. c \<noteq> CHR ''}'') r' = CHR ''}'' # post"
    by (simp add: post_def)
  then have r': "r' = b2 @ ''}'' @ post"
    using takeWhile_dropWhile_id [of "\<lambda>c. c \<noteq> CHR ''}''" r'] by (simp add: b2_def)
  have "r = num @ r'"
    by (simp add: num_def r'_def)
  then have r: "r = num @ b2 @ ''}'' @ post"
    using r' by simp
  have b2: "CHR ''}'' \<notin> set b2"
    unfolding b2_def by (auto dest: set_takeWhileD)
  have hd_b2: "case b2 of [] \<Rightarrow> True | c # _ \<Rightarrow> \<not> number_char c"
  proof (cases r')
    case Nil
    then show ?thesis by (simp add: b2_def)
  next
    case (Cons c t)
    then have "\<not> number_char c"
      using hd_dropWhile [of number_char r] by (simp add: r'_def)
    then show ?thesis using Cons by (simp add: b2_def)
  qed
  have numchars: "\<forall>c\<in>set num. number_char c"
    unfolding num_def by (auto dest: set_takeWhileD)
  from w obtain s k w1 w2 b1 w3 w4 where
      w': \<open>w = ''"'' @ s @ ''"'' @ w1 @ '':'' @ w2 @ ''{'' @ b1 @ ''"'' @ k @ ''"'' @ w3 @ '':'' @ w4\<close>
      and rest': "same_ignoring_case s sym'" "same_ignoring_case k ''price''"
        "\<forall>c\<in>set (w1 @ w2 @ w3 @ w4). is_space c" "CHR ''}'' \<notin> set b1"
    unfolding spells_key by blast
  have \<open>rest = ''"'' @ s @ ''"'' @ w1 @ '':'' @ w2 @ ''{'' @ b1 @ ''"'' @ k @ ''"'' @ w3 @ '':'' @ w4 @
               num @ b2 @ ''}'' @ post \<and>
        same_ignoring_case s sym' \<and> same_ignoring_case k ''price'' \<and>
        (\<forall>c\<in>set (w1 @ w2 @ w3 @ w4). is_space c) \<and>
        CHR ''}'' \<notin> set (b1 @ b2) \<and>
        num \<noteq> [] \<and> (\<forall>c\<in>set num. number_char c) \<and>
        (case b2 of [] \<Rightarrow> True | c # _ \<Rightarrow> \<not> number_char c)\<close>
    using rest w' r rest' b2 num numchars hd_b2 by simp
  then have "price_fragment sym' num rest"
    unfolding price_fragment_def by blast
  then show ?thesis using res by blast
qed

lemma price_match_complete:
  assumes "price_fragment sym' num rest"
  shows "match_here True (key_nodes sym' ''price'' @ price_tail) rest None [] \<noteq> None"
proof -
  from assms obtain s k w1 w2 w3 w4 b1 b2 post where
      rest: \<open>rest = ''"'' @ s @ ''"'' @ w1 @ '':'' @ w2 @ ''{'' @ b1 @ ''"'' @ k @ ''"'' @ w3 @ '':'' @ w4 @
               num @ b2 @ ''}'' @ post\<close>
      and c: "same_ignoring_case s sym'" "same_ignoring_case k ''price''"
        "\<forall>c\<in>set (w1 @ w2 @ w3 @ w4). is_space c" "CHR ''}'' \<notin> set (b1 @ b2)"
      and num: "num \<noteq> []" "\<forall>c\<in>set num. number_char c"
    unfolding price_fragment_def by blast
  define w where \<open>w = ''"'' @ s @ ''"'' @ w1 @ '':'' @ w2 @ ''{'' @ b1 @ ''"'' @ k @ ''"'' @ w3 @ '':'' @ w4\<close>
  have \<open>w = ''"'' @ s @ ''"'' @ w1 @ '':'' @ w2 @ ''{'' @ b1 @ ''"'' @ k @ ''"'' @ w3 @ '':'' @ w4 \<and>
        same_ignoring_case s sym' \<and> same_ignoring_case k ''price'' \<and>
        (\<forall>c\<in>set (w1 @ w2 @ w3 @ w4). is_space c) \<and> CHR ''}'' \<notin> set b1\<close>
    using c by (simp add: w_def)
  then have "spells True (key_atoms sym' ''price'') w"
    unfolding spells_key by blast
  moreover have "takeWhile number_char (num @ b2 @ ''}'' @ post) \<noteq> []"
    using num by (cases num) auto
  then have "match_here True price_tail (num @ b2 @ ''}'' @ post) None [] \<noteq> None"
    by (simp add: price_tail_match)
  ultimately have "match_here True (atoms (key_atoms sym' ''price'') @ price_tail)
      (w @ (num @ b2 @ ''}'' @ post)) None [] \<noteq> None"
    by (rule prefix_complete)
  then show ?thesis
    unfolding key_nodes_atoms using rest by (simp add: w_def)
qed

lemma recognizable_sound:
  assumes "search True (key_nodes sym' ''price'' @ price_tail) txt = Some res"
  shows "\<exists>num. res = [num] \<and> recognizable txt sym' num"
proof -
  from search_sound [OF assms] obtain pre rest where "txt = pre @ rest"
      "match_here True (key_nodes sym' ''price'' @ price_tail) rest None [] = Some res"
    by blast
  then show ?thesis
    using price_match_sound [of sym' rest res] unfolding recognizable_def by blast
qed

lemma recognizable_complete:
  assumes "recognizable txt sym' num"
  shows "search True (key_nodes sym' ''price'' @ price_tail) txt \<noteq> None"
proof -
  from assms obtain pre rest where "txt = pre @ rest" "price_fragment sym' num rest"
    unfolding recognizable_def by blast
  then show ?thesis
    using search_complete [OF price_match_complete, of sym' num rest pre] by simp
qed

text \<open>What one round of the loop does to the entry of its symbol, and to no other.\<close>

lemma fallback_step_apply:
  "fallback_step txt d s x =
     (if x = s then (case fallback_step txt Map.empty s s of None \<Rightarrow> d s | Some e \<Rightarrow> Some e) else d x)"
  by (simp add: fallback_step_def price_regexp name_regexp Let_def split: option.splits)

lemma fallback_loop:
  "foldl (fallback_step txt) d symbols x =
     (if x \<in> set symbols \<and> fallback_step txt Map.empty x x \<noteq> None
      then fallback_step txt Map.empty x x else d x)"
proof (induction symbols arbitrary: d)
  case Nil
  then show ?case by simp
next
  case (Cons s symbols)
  show ?case
    unfolding foldl_Cons Cons.IH [of "fallback_step txt d s"]
    by (subst (3) fallback_step_apply) (auto split: option.splits)
qed

lemma fallback_entry:
  "fallback_step txt Map.empty s s =
     (case search True (key_nodes s ''price'' @ price_tail) txt of
        None \<Rightarrow> None
      | Some m \<Rightarrow>
          Some \<lparr>entry_price = (case capture1 m of None \<Rightarrow> None | Some c \<Rightarrow> parseFloat c),
                entry_name = (case search True (key_nodes s ''name'' @ name_tail) txt of
                                None \<Rightarrow> Some s | Some nm \<Rightarrow> capture1 nm)\<rparr>)"
  by (simp add: fallback_step_def price_regexp name_regexp string_match_def Let_def split: option.splits)

lemma recognizableI:
  assumes \<open>txt = pre @ ''"'' @ s @ ''"'' @ w1 @ '':'' @ w2 @ ''{'' @ b1 @ ''"'' @ k @ ''"'' @ w3 @ '':'' @ w4 @
               num @ b2 @ ''}'' @ post\<close>
    and "same_ignoring_case s sym'" "same_ignoring_case k ''price''"
    and "\<forall>c\<in>set (w1 @ w2 @ w3 @ w4). is_space c" "CHR ''}'' \<notin> set (b1 @ b2)"
    and "num \<noteq> []" "\<forall>c\<in>set num. number_char c" "case b2 of [] \<Rightarrow> True | c # _ \<Rightarrow> \<not> number_char c"
  shows "recognizable txt sym' num"
proof -
  have \<open>price_fragment sym' num
          (''"'' @ s @ ''"'' @ w1 @ '':'' @ w2 @ ''{'' @ b1 @ ''"'' @ k @ ''"'' @ w3 @ '':'' @ w4 @
           num @ b2 @ ''}'' @ post)\<close>
    unfolding price_fragment_def
    by (intro exI conjI, rule refl) (rule assms)+
  then show ?thesis
    unfolding recognizable_def using assms(1) by (intro exI conjI)
qed

lemma make_result_price:
  "result_symbol (make_result d web s) = s \<and>
   result_price (make_result d web s) =
     (case d s of None \<Rightarrow> 0 | Some e \<Rightarrow> (case entry_price e of None \<Rightarrow> 0 | Some p \<Rightarrow> p))"
  by (simp add: make_result_def)

lemma fallback_resolves:
  assumes "recognizable txt s num"
  shows "\<exists>num' e. recognizable txt s num' \<and> fallback_step txt Map.empty s s = Some e \<and>
           entry_price e = parseFloat num'"
proof -
  from recognizable_complete [OF assms] obtain res
    where res: "search True (key_nodes s ''price'' @ price_tail) txt = Some res"
    by blast
  from recognizable_sound [OF res] obtain num' where "res = [num']" "recognizable txt s num'"
    by blast
  then have "fallback_step txt Map.empty s s =
      Some \<lparr>entry_price = parseFloat num',
            entry_name = (case search True (key_nodes s ''name'' @ name_tail) txt of
                            None \<Rightarrow> Some s | Some nm \<Rightarrow> capture1 nm)\<rparr>"
    using res by (simp add: fallback_entry capture1_def)
  then have "recognizable txt s num' \<and>
      fallback_step txt Map.empty s s =
        Some \<lparr>entry_price = parseFloat num',
              entry_name = (case search True (key_nodes s ''name'' @ name_tail) txt of
                              None \<Rightarrow> Some s | Some nm \<Rightarrow> capture1 nm)\<rparr> \<and>
      entry_price \<lparr>entry_price = parseFloat num',
              entry_name = (case search True (key_nodes s ''name'' @ name_tail) txt of
                              None \<Rightarrow> Some s | Some nm \<Rightarrow> capture1 nm)\<rparr> = parseFloat num'"
    using \<open>recognizable txt s num'\<close> by simp
  then show ?thesis by blast
qed

subsection \<open>Two answers\<close>

lemma two_prices_recognizable: "recognizable two_prices ''A'' ''2''"
  by (rule recognizableI [where pre = \<open>''"A": {"price": 1} ''\<close> and s = "''A''" and ?w1.0 = "[]"
        and ?w2.0 = "'' ''" and ?b1.0 = "[]" and k = "''price''" and ?w3.0 = "[]" and ?w4.0 = "'' ''"
        and ?b2.0 = "[]" and post = "[]"])
    (simp_all add: two_prices_def same_ignoring_case_def is_space_def number_char_def is_digit_def
      char_between_def)

lemma parenthesis_recognizable: "recognizable parenthesis_answer ''BRK(B)'' ''12.5''"
  by (rule recognizableI [where pre = \<open>''Prices today: ''\<close> and s = "''BRK(B)''" and ?w1.0 = "[]"
        and ?w2.0 = "'' ''" and ?b1.0 = "[]" and k = "''price''" and ?w3.0 = "[]" and ?w4.0 = "'' ''"
        and ?b2.0 = \<open>'', "name": "Berkshire"''\<close> and post = "'' (delayed)''"])
    (simp_all add: parenthesis_answer_def same_ignoring_case_def is_space_def number_char_def is_digit_def
      char_between_def)

lemma parse_examples: "price_of ''2'' = 2" "price_of ''12.5'' = 25 / 2"
  by (simp_all add: price_of_def parseFloat_def is_space_def is_digit_def char_between_def digits_value_def
      exponent_part_def scale10_def)

lemma clean_examples:
  "clean_text two_prices = two_prices" "clean_text parenthesis_answer = parenthesis_answer"
  by code_simp+

lemma fetch_two_prices:
  "snd (fetchStockPrices example_env (answering two_prices) parses_nothing [''A'']) =
     Inr [\<lparr>result_symbol = ''A'', result_price = 1, result_companyName = Some ''A'',
            result_sourceUrl = None, result_sourceTitle = None\<rparr>]"
  by code_simp

lemma fetch_parenthesis:
  "snd (fetchStockPrices example_env (answering parenthesis_answer) parses_nothing [''AAPL'', ''BRK(B)'']) =
     Inr [\<lparr>result_symbol = ''AAPL'', result_price = 0, result_companyName = Some ''AAPL'',
            result_sourceUrl = None, result_sourceTitle = None\<rparr>,
          \<lparr>result_symbol = ''BRK(B)'', result_price = 25 / 2, result_companyName = Some ''Berkshire'',
            result_sourceUrl = None, result_sourceTitle = None\<rparr>]"
  by code_simp

text \<open>
  Without the escaping the construction of a pattern can throw: for the symbol \<open>A)\<close>
  the pattern would hold a closing parenthesis that closes nothing.
\<close>

lemma unescaped_throws: "new_RegExp (price_pattern ''A)'') ''i'' = Thrown SyntaxError"
  by code_simp

text \<open>
  Claim C5, as stated, fails in its last part: \<open>text.match\<close> returns the first match,
  so when the text holds two recognizable fragments for a symbol with different
  numbers, the symbol resolves to the first number, not to the second. The text
  below is not JSON and holds the fragments \<open>"A": {"price": 1}\<close> and
  \<open>"A": {"price": 2}\<close>; the fragment with the number 2 is there, and \<open>A\<close> resolves
  to 1.
\<close>

theorem first_match_counterexample:
  "recognizable two_prices ''A'' ''2'' \<and> price_of ''2'' = 2 \<and>
   parses_nothing (clean_text two_prices) = None \<and>
   snd (fetchStockPrices example_env (answering two_prices) parses_nothing [''A'']) =
     Inr [\<lparr>result_symbol = ''A'', result_price = 1, result_companyName = Some ''A'',
            result_sourceUrl = None, result_sourceTitle = None\<rparr>]"
  using two_prices_recognizable parse_examples(1) fetch_two_prices
  by (simp add: parses_nothing_def)

text \<open>
  Claim C5, amended. For every symbol the two patterns built from the escaped symbol
  compile, to patterns that read each character of the symbol literally, so no round
  of the fallback loop throws; the entry that the loop leaves for a symbol is the one
  that a loop over that symbol alone leaves, whatever the other symbols are. When the
  remote call has answered, the cleaned text is not JSON and holds a recognizable
  fragment for a requested symbol, \<open>fetchStockPrices\<close> returns one result per requested
  symbol, and the price of that symbol is the number of a recognizable fragment for
  it in the text (the one the first match captures); hence the number \<open>p\<close> when all
  its recognizable fragments carry \<open>p\<close>.
\<close>

theorem fallback_extraction:
  "new_RegExp (price_pattern (escapeRegExp s)) ''i'' =
     Compiled (RegExp (key_nodes s ''price'' @ price_tail) True) \<and>
   new_RegExp (name_pattern (escapeRegExp s)) ''i'' =
     Compiled (RegExp (key_nodes s ''name'' @ name_tail) True) \<and>
   foldl (fallback_step txt) Map.empty symbols s =
     (if s \<in> set symbols then fallback_step txt Map.empty s s else None) \<and>
   (generateContent (API_KEY env) (build_prompt symbols) = Inr response \<and>
    txt = clean_text (case response_text response of None \<Rightarrow> [] | Some t \<Rightarrow> t) \<and>
    JSON_parse txt = None \<and> s \<in> set symbols \<and> recognizable txt s num \<longrightarrow>
      (\<exists>results num'.
         snd (fetchStockPrices env generateContent JSON_parse symbols) = Inr results \<and>
         map result_symbol results = symbols \<and>
         recognizable txt s num' \<and>
         (\<forall>r\<in>set results. result_symbol r = s \<longrightarrow> result_price r = price_of num')))"
proof (intro conjI impI)
  show "new_RegExp (price_pattern (escapeRegExp s)) ''i'' =
     Compiled (RegExp (key_nodes s ''price'' @ price_tail) True)"
    by (rule price_regexp)
  show "new_RegExp (name_pattern (escapeRegExp s)) ''i'' =
     Compiled (RegExp (key_nodes s ''name'' @ name_tail) True)"
    by (rule name_regexp)
  show "foldl (fallback_step txt) Map.empty symbols s =
     (if s \<in> set symbols then fallback_step txt Map.empty s s else None)"
    by (simp add: fallback_loop)
next
  assume h: "generateContent (API_KEY env) (build_prompt symbols) = Inr response \<and>
    txt = clean_text (case response_text response of None \<Rightarrow> [] | Some t \<Rightarrow> t) \<and>
    JSON_parse txt = None \<and> s \<in> set symbols \<and> recognizable txt s num"
  then have ne: "symbols \<noteq> []" by auto
  from h have answered: "generateContent (API_KEY env) (build_prompt symbols) = Inr response"
    and cleaned: "txt = clean_text (case response_text response of None \<Rightarrow> [] | Some t \<Rightarrow> t)"
    and no_json: "JSON_parse txt = None" and requested: "s \<in> set symbols"
    by blast+
  from h obtain num' e where num': "recognizable txt s num'"
      and e: "fallback_step txt Map.empty s s = Some e" "entry_price e = parseFloat num'"
    using fallback_resolves by blast
  define d where "d = parse_response JSON_parse symbols txt"
  define web where "web = first_web_chunk (groundingChunks response)"
  have d: "d s = Some e"
    using no_json requested e by (simp add: d_def parse_response_def fallback_loop)
  have fetched: "snd (fetchStockPrices env generateContent JSON_parse symbols) =
      Inr (map (make_result d web) symbols)"
    using answered ne by (simp add: fetchStockPrices_def Let_def d_def web_def cleaned)
  have prices: "\<forall>r\<in>set (map (make_result d web) symbols). result_symbol r = s \<longrightarrow> result_price r = price_of num'"
    using d e by (auto simp: make_result_price price_of_def)
  have syms: "map result_symbol (map (make_result d web) symbols) = symbols"
    by (simp add: comp_def make_result_price)
  show "\<exists>results num'.
         snd (fetchStockPrices env generateContent JSON_parse symbols) = Inr results \<and>
         map result_symbol results = symbols \<and>
         recognizable txt s num' \<and>
         (\<forall>r\<in>set results. result_symbol r = s \<longrightarrow> result_price r = price_of num')"
  proof (intro exI conjI)
    show "snd (fetchStockPrices env generateContent JSON_parse symbols) =
        Inr (map (make_result d web) symbols)"
      by (rule fetched)
    show "map result_symbol (map (make_result d web) symbols) = symbols"
      by (rule syms)
    show "recognizable txt s num'"
      by (rule num')
    show "\<forall>r\<in>set (map (make_result d web) symbols). result_symbol r = s \<longrightarrow> result_price r = price_of num'"
      by (rule prices)
  qed
qed

theorem fallback_extraction_witness:
  "new_RegExp (price_pattern (escapeRegExp ''BRK(B)'')) ''i'' =
     Compiled (RegExp (key_nodes ''BRK(B)'' ''price'' @ price_tail) True) \<and>
   (\<exists>results num'.
      snd (fetchStockPrices example_env (answering parenthesis_answer) parses_nothing [''AAPL'', ''BRK(B)'']) =
        Inr results \<and>
      map result_symbol results = [''AAPL'', ''BRK(B)''] \<and>
      recognizable parenthesis_answer ''BRK(B)'' num' \<and>
      (\<forall>r\<in>set results. result_symbol r = ''BRK(B)'' \<longrightarrow> result_price r = price_of num'))"
proof -
  have hyp: "answering parenthesis_answer (API_KEY example_env) (build_prompt [''AAPL'', ''BRK(B)'']) =
        Inr \<lparr>response_text = Some parenthesis_answer, groundingChunks = []\<rparr> \<and>
      parenthesis_answer =
        clean_text (case response_text \<lparr>response_text = Some parenthesis_answer, groundingChunks = []\<rparr> of
                      None \<Rightarrow> [] | Some t \<Rightarrow> t) \<and>
      parses_nothing parenthesis_answer = None \<and> ''BRK(B)'' \<in> set [''AAPL'', ''BRK(B)''] \<and>
      recognizable parenthesis_answer ''BRK(B)'' ''12.5''"
    by (simp add: answering_def clean_examples parses_nothing_def parenthesis_recognizable)
  show ?thesis
    using fallback_extraction [where s = "''BRK(B)''" and symbols = "[''AAPL'', ''BRK(B)'']"
        and env = example_env and generateContent = "answering parenthesis_answer"
        and response = "\<lparr>response_text = Some parenthesis_answer, groundingChunks = []\<rparr>"
        and ?txt = parenthesis_answer and JSON_parse = parses_nothing and num = "''12.5''"] hyp
    by blast
qed

end
